theory Spec2Isabelle
  imports Complex_Main "HOL-Library.Word" "HOL-Library.Log_Nat" "HOL-Library.Code_Target_Numeral"
begin

unbundle bit_operations_syntax

section \<open>JavaScript values used by the services and the routes\<close>

subsection \<open>Strings\<close>

text \<open>
  A JavaScript string is a sequence of 16-bit code units: \<open>length\<close> counts them and
  \<open>charCodeAt\<close> reads one. String literals of the source are written \<open>js ''...''\<close>.
\<close>

type_synonym code_unit = "16 word"
type_synonym jsstring = "code_unit list"
type_synonym byte = "8 word"

definition js :: "string \<Rightarrow> jsstring" where
  "js s = map of_char s"

text \<open>Truthiness of a value of type \<open>string | null\<close>: \<open>null\<close> and \<open>''\<close> are falsy.\<close>

fun truthy :: "jsstring option \<Rightarrow> bool" where
  "truthy None = False"
| "truthy (Some s) = (s \<noteq> [])"

text \<open>\<open>a || b\<close> on \<open>string | null\<close> with a string default.\<close>

fun or_default :: "jsstring option \<Rightarrow> jsstring \<Rightarrow> jsstring" where
  "or_default None d = d"
| "or_default (Some s) d = (if s = [] then d else s)"

definition hexdigit :: "nat \<Rightarrow> code_unit" where
  "hexdigit d = (if d < 10 then of_nat (48 + d) else of_nat (87 + d))"

definition is_hex_lower :: "code_unit \<Rightarrow> bool" where
  "is_hex_lower c = ((48 \<le> c \<and> c \<le> 57) \<or> (97 \<le> c \<and> c \<le> 102))"

text \<open>The digits of a natural number in base 16, most significant first, lowercase.\<close>

fun toHex :: "nat \<Rightarrow> jsstring" where
  "toHex n = (if n < 16 then [hexdigit n] else toHex (n div 16) @ [hexdigit (n mod 16)])"

fun toDec :: "nat \<Rightarrow> jsstring" where
  "toDec n = (if n < 10 then [of_nat (48 + n)] else toDec (n div 10) @ [of_nat (48 + n mod 10)])"

declare toHex.simps [simp del] toDec.simps [simp del]

text \<open>\<open>String.prototype.padStart(n, '0')\<close>.\<close>

definition padStart0 :: "nat \<Rightarrow> jsstring \<Rightarrow> jsstring" where
  "padStart0 n s = replicate (n - length s) (of_char CHR ''0'') @ s"

subsection \<open>Numbers\<close>

text \<open>
  A JavaScript number is an IEEE 754 binary64 value. \<open>Fin r\<close> is the finite double whose
  exact value is the rational \<open>r\<close>; the two zeros are identified (they render the same
  in every string and JSON output below). Every arithmetic operation computes the exact
  result and rounds it with \<open>fl\<close>: to the nearest double, ties to the even significand,
  with gradual underflow and overflow to infinity.
\<close>

datatype jsnum = NaN | PInf | NInf | Fin rat

definition pow2 :: "int \<Rightarrow> rat" where
  "pow2 e = (if 0 \<le> e then 2 ^ nat e else 1 / 2 ^ nat (- e))"

text \<open>\<open>ilog2 x\<close> is \<open>\<lfloor>log\<^sub>2 x\<rfloor>\<close> for a positive rational \<open>x\<close>.\<close>

definition ilog2 :: "rat \<Rightarrow> int" where
  "ilog2 x = (let (p, q) = quotient_of x; d = bitlen p - bitlen q
              in if pow2 d \<le> x then d else d - 1)"

definition round_half_even :: "rat \<Rightarrow> int" where
  "round_half_even q = (let f = \<lfloor>q\<rfloor>; d = q - of_int f in
      if d < 1 / 2 then f else if 1 / 2 < d then f + 1 else if even f then f else f + 1)"

text \<open>
  The significand \<open>m\<close> has at most 53 bits and the exponent \<open>e\<close> is at least \<open>-1074\<close>.
  The largest double is \<open>(2\<^sup>5\<^sup>3 - 1) \<times> 2\<^sup>9\<^sup>7\<^sup>1\<close>: a rounded value of \<open>2\<^sup>1\<^sup>0\<^sup>2\<^sup>4\<close> or more, that is
  \<open>e > 971\<close> or \<open>m = 2\<^sup>5\<^sup>3\<close> at \<open>e = 971\<close>, overflows to an infinity.
\<close>

definition fl :: "rat \<Rightarrow> jsnum" where
  "fl x = (if x = 0 then Fin 0 else
     let a = \<bar>x\<bar>;
         e = max (ilog2 a - 52) (- 1074);
         m = round_half_even (a / pow2 e)
     in if 971 < e \<or> (e = 971 \<and> 2 ^ 53 \<le> m) then (if 0 < x then PInf else NInf)
        else Fin (sgn x * (of_int m * pow2 e)))"

fun js_neg :: "jsnum \<Rightarrow> jsnum" where
  "js_neg NaN = NaN"
| "js_neg PInf = NInf"
| "js_neg NInf = PInf"
| "js_neg (Fin r) = Fin (- r)"

fun js_add :: "jsnum \<Rightarrow> jsnum \<Rightarrow> jsnum" where
  "js_add NaN _ = NaN"
| "js_add _ NaN = NaN"
| "js_add PInf NInf = NaN"
| "js_add NInf PInf = NaN"
| "js_add PInf _ = PInf"
| "js_add _ PInf = PInf"
| "js_add NInf _ = NInf"
| "js_add _ NInf = NInf"
| "js_add (Fin a) (Fin b) = fl (a + b)"

definition js_sub :: "jsnum \<Rightarrow> jsnum \<Rightarrow> jsnum" where
  "js_sub x y = js_add x (js_neg y)"

fun js_sgn :: "jsnum \<Rightarrow> rat" where
  "js_sgn NaN = 0"
| "js_sgn PInf = 1"
| "js_sgn NInf = - 1"
| "js_sgn (Fin r) = sgn r"

fun js_mul :: "jsnum \<Rightarrow> jsnum \<Rightarrow> jsnum" where
  "js_mul NaN _ = NaN"
| "js_mul _ NaN = NaN"
| "js_mul (Fin a) (Fin b) = fl (a * b)"
| "js_mul x y = (let s = js_sgn x * js_sgn y in
                   if s = 0 then NaN else if 0 < s then PInf else NInf)"

text \<open>\<open>x < y\<close>: false as soon as one side is \<open>NaN\<close>.\<close>

fun js_lt :: "jsnum \<Rightarrow> jsnum \<Rightarrow> bool" where
  "js_lt NaN _ = False"
| "js_lt _ NaN = False"
| "js_lt (Fin a) (Fin b) = (a < b)"
| "js_lt PInf _ = False"
| "js_lt _ PInf = True"
| "js_lt NInf NInf = False"
| "js_lt NInf _ = True"
| "js_lt _ NInf = False"

fun Math_floor :: "jsnum \<Rightarrow> jsnum" where
  "Math_floor (Fin r) = Fin (of_int \<lfloor>r\<rfloor>)"
| "Math_floor x = x"

fun Math_abs :: "jsnum \<Rightarrow> jsnum" where
  "Math_abs (Fin r) = Fin \<bar>r\<bar>"
| "Math_abs NInf = PInf"
| "Math_abs x = x"

text \<open>An integer held in a number.\<close>

definition num :: "int \<Rightarrow> jsnum" where
  "num i = Fin (of_int i)"

text \<open>
  \<open>Number.prototype.toString(16)\<close>. Integers print their base-16 digits; a fractional
  part prints after a point, digit by digit (a double's expansion in base 16 ends, after
  at most 269 digits).
\<close>

primrec fracHex :: "nat \<Rightarrow> rat \<Rightarrow> jsstring" where
  "fracHex 0 f = []"
| "fracHex (Suc k) f =
     (if f = 0 then []
      else let d = \<lfloor>f * 16\<rfloor> in hexdigit (nat d) # fracHex k (f * 16 - of_int d))"

definition unsignedToString16 :: "rat \<Rightarrow> jsstring" where
  "unsignedToString16 r =
     (let i = \<lfloor>r\<rfloor>; f = r - of_int i
      in toHex (nat i) @ (if f = 0 then [] else of_char CHR ''.'' # fracHex 269 f))"

fun Number_toString16 :: "jsnum \<Rightarrow> jsstring" where
  "Number_toString16 NaN = js ''NaN''"
| "Number_toString16 PInf = js ''Infinity''"
| "Number_toString16 NInf = js ''-Infinity''"
| "Number_toString16 (Fin r) =
     (if r < 0 then of_char CHR ''-'' # unsignedToString16 (- r) else unsignedToString16 r)"

subsection \<open>Number to string, radix 10\<close>

text \<open>
  \<open>Number::toString\<close> of the language standard, used by template literals: the
  shortest decimal digit string \<open>s\<close> (of \<open>k\<close> digits) with \<open>fl (s \<times> 10\<^sup>n\<^sup>-\<^sup>k) = x\<close>,
  the closest to \<open>x\<close> when there are several, laid out plainly for \<open>-6 < n \<le> 21\<close> and
  with an exponent otherwise.
\<close>

definition pow10 :: "int \<Rightarrow> rat" where
  "pow10 e = (if 0 \<le> e then 10 ^ nat e else 1 / 10 ^ nat (- e))"

definition ilog10 :: "rat \<Rightarrow> int" where
  "ilog10 x = (let (p, q) = quotient_of x;
                   d = int (floorlog 10 (nat p)) - int (floorlog 10 (nat q))
               in if pow10 d \<le> x then d else d - 1)"

definition digitsCandidate :: "rat \<Rightarrow> int \<Rightarrow> nat \<Rightarrow> int option" where
  "digitsCandidate x n k =
     (let sc = pow10 (n - int k);
          lo = \<lfloor>x / sc\<rfloor>;
          oklo = (fl (of_int lo * sc) = Fin x);
          okhi = (fl (of_int (lo + 1) * sc) = Fin x);
          dlo = x - of_int lo * sc;
          dhi = of_int (lo + 1) * sc - x
      in if oklo \<and> okhi then
           Some (if dlo < dhi then lo else if dhi < dlo then lo + 1
                 else if even lo then lo else lo + 1)
         else if oklo then Some lo
         else if okhi then Some (lo + 1)
         else None)"

fun shortestDigits :: "rat \<Rightarrow> int \<Rightarrow> nat list \<Rightarrow> nat \<times> int" where
  "shortestDigits x n [] = (17, \<lfloor>x / pow10 (n - 17)\<rfloor>)"
| "shortestDigits x n (k # ks) =
     (case digitsCandidate x n k of Some s \<Rightarrow> (k, s) | None \<Rightarrow> shortestDigits x n ks)"

definition unsignedToString :: "rat \<Rightarrow> jsstring" where
  "unsignedToString x =
     (let n0 = ilog10 x + 1;
          (k, s0) = shortestDigits x n0 [1..<18];
          (n, s) = (if s0 = 10 ^ k then (n0 + 1, s0 div 10) else (n0, s0));
          ds = toDec (nat s);
          zero = of_char CHR ''0'';
          dot = of_char CHR ''.''
      in if int k \<le> n \<and> n \<le> 21 then ds @ replicate (nat (n - int k)) zero
         else if 0 < n \<and> n \<le> 21 then take (nat n) ds @ dot # drop (nat n) ds
         else if - 6 < n \<and> n \<le> 0 then zero # dot # replicate (nat (- n)) zero @ ds
         else (if k = 1 then ds else take 1 ds @ dot # drop 1 ds)
              @ of_char CHR ''e''
              # (if 0 \<le> n - 1 then of_char CHR ''+'' else of_char CHR ''-'')
              # toDec (nat \<bar>n - 1\<bar>))"

fun Number_toString :: "jsnum \<Rightarrow> jsstring" where
  "Number_toString NaN = js ''NaN''"
| "Number_toString PInf = js ''Infinity''"
| "Number_toString NInf = js ''-Infinity''"
| "Number_toString (Fin r) =
     (if r = 0 then js ''0''
      else if r < 0 then of_char CHR ''-'' # unsignedToString (- r)
      else unsignedToString r)"

subsection \<open>String to number: parseFloat and parseInt\<close>

text \<open>White space and line terminators, which both functions skip at the front.\<close>

definition is_whitespace :: "code_unit \<Rightarrow> bool" where
  "is_whitespace c =
     (c \<in> {0x09, 0x0A, 0x0B, 0x0C, 0x0D, 0x20, 0xA0, 0x1680, 0x2028, 0x2029, 0x202F,
            0x205F, 0x3000, 0xFEFF} \<or> (0x2000 \<le> c \<and> c \<le> 0x200A))"

definition is_digit :: "code_unit \<Rightarrow> bool" where
  "is_digit c = (48 \<le> c \<and> c \<le> 57)"

definition digitsValue :: "jsstring \<Rightarrow> nat" where
  "digitsValue ds = foldl (\<lambda>a c. 10 * a + (unat c - 48)) 0 ds"

text \<open>The value of the exponent part at the front of a string, 0 when there is none.\<close>

definition exponentPart :: "jsstring \<Rightarrow> int" where
  "exponentPart s =
     (case s of
        [] \<Rightarrow> 0
      | e # r \<Rightarrow>
          if e = of_char CHR ''e'' \<or> e = of_char CHR ''E'' then
            (let (sg, r') =
                   (case r of
                      [] \<Rightarrow> (1, [])
                    | c # r'' \<Rightarrow>
                        if c = of_char CHR ''+'' then (1, r'')
                        else if c = of_char CHR ''-'' then (- 1, r'')
                        else (1, r));
                 ds = takeWhile is_digit r'
             in if ds = [] then 0 else sg * int (digitsValue ds))
          else 0)"

text \<open>
  The longest prefix that is a \<open>StrUnsignedDecimalLiteral\<close> (\<open>Infinity\<close>, or digits with
  an optional fraction and exponent), rounded to a double; \<open>None\<close> when no prefix is one.
\<close>

definition unsignedDecimal :: "jsstring \<Rightarrow> jsnum option" where
  "unsignedDecimal s =
     (if take 8 s = js ''Infinity'' then Some PInf
      else
        let ip = takeWhile is_digit s;
            r1 = dropWhile is_digit s;
            (fp, r2) =
               (case r1 of
                  [] \<Rightarrow> ([], [])
                | c # r \<Rightarrow>
                    if c = of_char CHR ''.''
                    then (takeWhile is_digit r, dropWhile is_digit r)
                    else ([], r1))
        in if ip = [] \<and> fp = [] then None
           else Some (fl ((of_nat (digitsValue ip) + of_nat (digitsValue fp) / 10 ^ length fp)
                          * pow10 (exponentPart r2))))"

definition parseFloat :: "jsstring \<Rightarrow> jsnum" where
  "parseFloat s =
     (let t = dropWhile is_whitespace s;
          (neg, u) =
             (case t of
                [] \<Rightarrow> (False, [])
              | c # r \<Rightarrow>
                  if c = of_char CHR ''-'' then (True, r)
                  else if c = of_char CHR ''+'' then (False, r)
                  else (False, t))
      in case unsignedDecimal u of
           None \<Rightarrow> NaN
         | Some v \<Rightarrow> if neg then js_neg v else v)"

text \<open>The value of a digit in a radix up to 16, \<open>None\<close> for any other code unit.\<close>

definition radixDigit :: "nat \<Rightarrow> code_unit \<Rightarrow> nat option" where
  "radixDigit radix c =
     (let v = (if 48 \<le> c \<and> c \<le> 57 then Some (unat c - 48)
               else if 97 \<le> c \<and> c \<le> 102 then Some (unat c - 87)
               else if 65 \<le> c \<and> c \<le> 70 then Some (unat c - 55)
               else None)
      in case v of None \<Rightarrow> None | Some d \<Rightarrow> if d < radix then Some d else None)"

definition radixValue :: "nat \<Rightarrow> jsstring \<Rightarrow> nat" where
  "radixValue radix ds =
     foldl (\<lambda>a c. radix * a + (case radixDigit radix c of Some d \<Rightarrow> d | None \<Rightarrow> 0)) 0 ds"

text \<open>\<open>parseInt(s)\<close> with no radix argument: base 10, or 16 after a \<open>0x\<close> prefix.\<close>

definition parseInt :: "jsstring \<Rightarrow> jsnum" where
  "parseInt s =
     (let t = dropWhile is_whitespace s;
          (neg, u) =
             (case t of
                [] \<Rightarrow> (False, [])
              | c # r \<Rightarrow>
                  if c = of_char CHR ''-'' then (True, r)
                  else if c = of_char CHR ''+'' then (False, r)
                  else (False, t));
          (radix, z) =
             (if take 2 u = js ''0x'' \<or> take 2 u = js ''0X'' then (16, drop 2 u) else (10, u));
          ds = takeWhile (\<lambda>c. radixDigit radix c \<noteq> None) z
      in if ds = [] then NaN
         else let v = fl (of_nat (radixValue radix ds)) in if neg then js_neg v else v)"

subsection \<open>Buffers\<close>

text \<open>\<open>Buffer.from(s)\<close>: the UTF-8 bytes of a string; a lone surrogate becomes U+FFFD.\<close>

fun utf8 :: "jsstring \<Rightarrow> byte list" where
  "utf8 [] = []"
| "utf8 (c # cs) =
     (let n = unat c in
      if n < 0x80 then of_nat n # utf8 cs
      else if n < 0x800 then of_nat (0xC0 + n div 64) # of_nat (0x80 + n mod 64) # utf8 cs
      else if 0xD800 \<le> n \<and> n \<le> 0xDBFF then
        (case cs of
           [] \<Rightarrow> [0xEF, 0xBF, 0xBD]
         | d # ds \<Rightarrow>
             let m = unat d in
             if 0xDC00 \<le> m \<and> m \<le> 0xDFFF then
               (let p = 0x10000 + (n - 0xD800) * 0x400 + (m - 0xDC00)
                in of_nat (0xF0 + p div 262144) # of_nat (0x80 + p div 4096 mod 64)
                   # of_nat (0x80 + p div 64 mod 64) # of_nat (0x80 + p mod 64) # utf8 ds)
             else 0xEF # 0xBF # 0xBD # utf8 cs)
      else if 0xDC00 \<le> n \<and> n \<le> 0xDFFF then 0xEF # 0xBF # 0xBD # utf8 cs
      else of_nat (0xE0 + n div 4096) # of_nat (0x80 + n div 64 mod 64)
           # of_nat (0x80 + n mod 64) # utf8 cs)"

text \<open>\<open>buf.toString('hex')\<close>: two lowercase hex digits per byte.\<close>

definition hexByte :: "byte \<Rightarrow> jsstring" where
  "hexByte b = [hexdigit (unat b div 16), hexdigit (unat b mod 16)]"

definition toStringHex :: "byte list \<Rightarrow> jsstring" where
  "toStringHex bs = concat (map hexByte bs)"

text \<open>
  \<open>Buffer.from(s, 'hex').length\<close>: the decoder reads pairs of hex digits and stops at
  the first pair that is not one.
\<close>

fun hexDecodedLength :: "jsstring \<Rightarrow> nat" where
  "hexDecodedLength (a # b # rest) =
     (if radixDigit 16 a \<noteq> None \<and> radixDigit 16 b \<noteq> None
      then Suc (hexDecodedLength rest) else 0)"
| "hexDecodedLength _ = 0"

subsection \<open>32-bit integer operators\<close>

text \<open>
  The bitwise operators convert their operands with \<open>ToInt32\<close> and return a signed
  32-bit integer. The operands below are integers far inside the exact range of a double,
  so they are held as \<open>int\<close> and the wrap-around is written out.
\<close>

definition ToInt32 :: "int \<Rightarrow> int" where
  "ToInt32 x = (x + 2 ^ 31) mod 2 ^ 32 - 2 ^ 31"

definition shl32 :: "int \<Rightarrow> nat \<Rightarrow> int" where
  "shl32 x k = ToInt32 (ToInt32 x * 2 ^ (k mod 32))"

definition and32 :: "int \<Rightarrow> int \<Rightarrow> int" where
  "and32 a b = ToInt32 (ToInt32 a AND ToInt32 b)"

definition xor32 :: "int \<Rightarrow> int \<Rightarrow> int" where
  "xor32 a b = ToInt32 (ToInt32 a XOR ToInt32 b)"

section \<open>The service: hashString\<close>

text \<open>The \<open>for\<close> loop of \<open>hashString\<close>, one code unit per step.\<close>

definition hashStep :: "int \<Rightarrow> code_unit \<Rightarrow> int" where
  "hashStep hash c = (let h = (shl32 hash 5 - hash) + uint c in and32 h h)"

definition hashLoop :: "jsstring \<Rightarrow> int" where
  "hashLoop input = foldl hashStep 0 input"

lemma toHex_nonempty: "toHex n \<noteq> []"
  by (induction n rule: toHex.induct) (subst toHex.simps, simp)

lemma Number_toString16_num: "0 \<le> i \<Longrightarrow> Number_toString16 (num i) = toHex (nat i)"
  by (simp add: num_def unsignedToString16_def)

text \<open>The \<open>while\<close> loop that pads the hex string to at least 64 characters.\<close>

function padHash :: "int \<Rightarrow> jsstring \<Rightarrow> jsstring" where
  "padHash hash hexHash =
     (if length hexHash < 64
      then padHash hash
             (hexHash @ Number_toString16 (Math_abs (num (xor32 hash (int (length hexHash))))))
      else hexHash)"
  by pat_completeness auto
termination
proof (relation "measure (\<lambda>(hash, hexHash). 64 - length hexHash)")
  show "wf (measure (\<lambda>(hash, hexHash). 64 - length hexHash))"
    by simp
next
  fix hash :: int and hexHash :: jsstring
  assume short: "length hexHash < 64"
  have "Math_abs (num (xor32 hash (int (length hexHash)))) = num \<bar>xor32 hash (int (length hexHash))\<bar>"
    by (simp add: num_def)
  then have "Number_toString16 (Math_abs (num (xor32 hash (int (length hexHash))))) \<noteq> []"
    by (simp add: Number_toString16_num toHex_nonempty)
  then obtain c cs
    where "Number_toString16 (Math_abs (num (xor32 hash (int (length hexHash))))) = c # cs"
    by (auto simp: neq_Nil_conv)
  with short
  show "((hash, hexHash @ Number_toString16 (Math_abs (num (xor32 hash (int (length hexHash)))))),
         (hash, hexHash)) \<in> measure (\<lambda>(hash, hexHash). 64 - length hexHash)"
    by simp
qed

declare padHash.simps [simp del]

definition hashString :: "jsstring \<Rightarrow> jsstring" where
  "hashString input =
     (let hash = hashLoop input
      in take 64 (padHash hash (Number_toString16 (Math_abs (num hash)))))"

section \<open>The chain-signatures service\<close>

text \<open>
  The repository holds two versions of the service module. They share
  \<open>createBitcoinTransactionPayload\<close>, \<open>createRuneEtchPayload\<close>, \<open>createRuneTransferPayload\<close>
  and \<open>hashString\<close> word for word and differ in \<open>deriveAddressFromNearAccount\<close>; the
  version the route imports also has the three \<open>create...Transaction\<close> functions.
  A thrown \<open>Error\<close> is a value \<open>Error message\<close>; a function that can throw returns
  \<open>exn + 'a\<close>.
\<close>

datatype exn = Error (message: jsstring)

record derived =
  address :: jsstring
  publicKey :: jsstring

subsection \<open>deriveAddressFromNearAccount, hash-based version\<close>

definition deriveAddressFromNearAccount_mock :: "jsstring \<Rightarrow> jsstring \<Rightarrow> derived" where
  "deriveAddressFromNearAccount_mock nearAccountId derivationPath =
     (let mockAddress = js ''tb1q'' @ take 38 (hashString (nearAccountId @ derivationPath));
          mockPublicKey = js ''04'' @ hashString (nearAccountId @ derivationPath @ js ''pubkey'')
      in \<lparr>address = mockAddress, publicKey = mockPublicKey\<rparr>)"

subsection \<open>deriveAddressFromNearAccount, SHA-256 version\<close>

text \<open>
  \<open>sha256\<close> is the imported library function, a parameter here: it maps the bytes of a
  buffer to a digest, or throws. Whatever it throws is replaced by the function's own
  error.
\<close>

definition deriveAddressFromNearAccount ::
  "(byte list \<Rightarrow> exn + byte list) \<Rightarrow> jsstring \<Rightarrow> jsstring \<Rightarrow> exn + derived" where
  "deriveAddressFromNearAccount sha256 nearAccountId derivationPath =
     (let seedData = nearAccountId @ js '':'' @ derivationPath in
      case sha256 (utf8 seedData) of
        Inl e \<Rightarrow> Inl (Error (js ''Failed to derive Bitcoin address from NEAR account''))
      | Inr seedHash \<Rightarrow>
          Inr \<lparr>address = js ''bc1q'' @ toStringHex (take 20 seedHash),
               publicKey = toStringHex seedHash\<rparr>)"

subsection \<open>The simulated transactions\<close>

text \<open>
  One record for the three payload shapes; a field a shape does not have is \<open>None\<close>.
  \<open>now\<close> is the value of \<open>Date.now()\<close>. Nothing in the \<open>try\<close> blocks of the three
  functions can throw, so they return their payload.
\<close>

record tx_payload =
  tx_type :: jsstring
  senderAddress :: jsstring
  receiverAddress :: jsstring
  amountSatoshis :: jsnum
  fee :: jsnum
  runeTicker :: "jsstring option"
  decimals :: "jsnum option"
  mintHeight :: "jsnum option"
  runeAmount :: "jsnum option"
  opReturnHex :: "jsstring option"
  tx_publicKey :: jsstring
  unsignedTxHex :: jsstring

text \<open>\<open>amount < 1 ? Math.floor(amount * 100000000) : Math.floor(amount)\<close>\<close>

definition toSatoshis :: "jsnum \<Rightarrow> jsnum" where
  "toSatoshis amount =
     (if js_lt amount (Fin 1) then Math_floor (js_mul amount (Fin 100000000))
      else Math_floor amount)"

definition createBitcoinTransferTransaction ::
  "nat \<Rightarrow> jsstring \<Rightarrow> jsstring \<Rightarrow> jsnum \<Rightarrow> jsstring \<Rightarrow> tx_payload" where
  "createBitcoinTransferTransaction now sender receiver amount pk =
     \<lparr>tx_type = js ''bitcoin_transfer'',
      senderAddress = sender,
      receiverAddress = receiver,
      amountSatoshis = toSatoshis amount,
      fee = Fin 1000,
      runeTicker = None, decimals = None, mintHeight = None, runeAmount = None,
      opReturnHex = None,
      tx_publicKey = pk,
      unsignedTxHex = js ''simulated_unsigned_tx_'' @ Number_toString (num (int now))\<rparr>"

text \<open>\<open>decimals\<close> and \<open>mintHeight\<close> are optional parameters with defaults 0 and 840000.\<close>

definition createEtchRuneTransaction ::
  "nat \<Rightarrow> jsstring \<Rightarrow> jsstring \<Rightarrow> jsstring \<Rightarrow> jsnum option \<Rightarrow> jsnum option \<Rightarrow> jsstring
     \<Rightarrow> tx_payload" where
  "createEtchRuneTransaction now sender receiver ticker decimals_opt mintHeight_opt pk =
     (let decimals = (case decimals_opt of None \<Rightarrow> Fin 0 | Some d \<Rightarrow> d);
          mintHeight = (case mintHeight_opt of None \<Rightarrow> Fin 840000 | Some h \<Rightarrow> h);
          opReturnData = js ''RUNE_ETCH:'' @ ticker @ js '':'' @ Number_toString decimals
                         @ js '':'' @ Number_toString mintHeight
      in \<lparr>tx_type = js ''rune_etch'',
          senderAddress = sender,
          receiverAddress = receiver,
          amountSatoshis = Fin 10000,
          fee = Fin 2000,
          runeTicker = Some ticker, decimals = Some decimals, mintHeight = Some mintHeight,
          runeAmount = None,
          opReturnHex = Some (toStringHex (utf8 opReturnData)),
          tx_publicKey = pk,
          unsignedTxHex = js ''simulated_unsigned_rune_etch_tx_'' @ Number_toString (num (int now))\<rparr>)"

definition createTransferRuneTransaction ::
  "nat \<Rightarrow> jsstring \<Rightarrow> jsstring \<Rightarrow> jsnum \<Rightarrow> jsstring \<Rightarrow> jsnum \<Rightarrow> jsstring \<Rightarrow> tx_payload" where
  "createTransferRuneTransaction now sender receiver amount ticker rune_amount pk =
     (let opReturnData = js ''RUNE_TRANSFER:'' @ ticker @ js '':'' @ Number_toString rune_amount
      in \<lparr>tx_type = js ''rune_transfer'',
          senderAddress = sender,
          receiverAddress = receiver,
          amountSatoshis = toSatoshis amount,
          fee = Fin 1500,
          runeTicker = Some ticker, decimals = None, mintHeight = None,
          runeAmount = Some rune_amount,
          opReturnHex = Some (toStringHex (utf8 opReturnData)),
          tx_publicKey = pk,
          unsignedTxHex =
            js ''simulated_unsigned_rune_transfer_tx_'' @ Number_toString (num (int now))\<rparr>)"

subsection \<open>createBitcoinTransactionPayload\<close>

record utxo =
  txid :: jsstring
  vout :: jsnum
  utxo_value :: jsnum

record tx_input =
  in_txid :: jsstring
  in_vout :: jsnum
  scriptSig :: jsstring
  sequence :: jsnum
  witness :: "jsstring list"

datatype scriptPubKey = Address jsstring | Hex jsstring

record tx_output =
  out_value :: jsnum
  out_scriptPubKey :: scriptPubKey

record transactionPayload =
  inputs :: "tx_input list"
  outputs :: "tx_output list"
  version :: jsnum
  locktime :: jsnum

record mpcSigningParams =
  path :: jsstring
  payload :: jsstring
  key_version :: jsnum

text \<open>
  \<open>JSON.stringify\<close> on the transaction payload: keys in insertion order, a number that
  is not finite as \<open>null\<close>, strings quoted and escaped.
\<close>

definition hex4 :: "nat \<Rightarrow> jsstring" where
  "hex4 n = [hexdigit (n div 4096 mod 16), hexdigit (n div 256 mod 16),
             hexdigit (n div 16 mod 16), hexdigit (n mod 16)]"

text \<open>The two-character escapes: a backslash (\<open>0x5C\<close>) and a letter, quote or backslash.\<close>

definition escapeUnit :: "code_unit \<Rightarrow> jsstring" where
  "escapeUnit c =
     (if c = 0x08 then 0x5C # js ''b'' else if c = 0x09 then 0x5C # js ''t''
      else if c = 0x0A then 0x5C # js ''n'' else if c = 0x0C then 0x5C # js ''f''
      else if c = 0x0D then 0x5C # js ''r''
      else if c = 0x22 then [0x5C, 0x22]
      else if c = 0x5C then [0x5C, 0x5C]
      else if c < 0x20 then 0x5C # js ''u'' @ hex4 (unat c)
      else [c])"

fun quoteBody :: "jsstring \<Rightarrow> jsstring" where
  "quoteBody [] = []"
| "quoteBody (c # cs) =
     (if 0xD800 \<le> c \<and> c \<le> 0xDBFF then
        (case cs of
           [] \<Rightarrow> 0x5C # js ''u'' @ hex4 (unat c)
         | d # ds \<Rightarrow>
             if 0xDC00 \<le> d \<and> d \<le> 0xDFFF then c # d # quoteBody ds
             else 0x5C # js ''u'' @ hex4 (unat c) @ quoteBody cs)
      else if 0xDC00 \<le> c \<and> c \<le> 0xDFFF then 0x5C # js ''u'' @ hex4 (unat c) @ quoteBody cs
      else escapeUnit c @ quoteBody cs)"

definition JSON_string :: "jsstring \<Rightarrow> jsstring" where
  "JSON_string s = 0x22 # quoteBody s @ [0x22]"

fun JSON_number :: "jsnum \<Rightarrow> jsstring" where
  "JSON_number (Fin r) = Number_toString (Fin r)"
| "JSON_number _ = js ''null''"

fun commaSep :: "jsstring list \<Rightarrow> jsstring" where
  "commaSep [] = []"
| "commaSep [x] = x"
| "commaSep (x # y # ys) = x @ js '','' @ commaSep (y # ys)"

text \<open>A member \<open>"key":value\<close> and an object \<open>{...}\<close> of members.\<close>

definition member :: "string \<Rightarrow> jsstring \<Rightarrow> jsstring" where
  "member k v = JSON_string (js k) @ js '':'' @ v"

definition object :: "jsstring list \<Rightarrow> jsstring" where
  "object ms = js ''{'' @ commaSep ms @ js ''}''"

definition array :: "jsstring list \<Rightarrow> jsstring" where
  "array xs = js ''['' @ commaSep xs @ js '']''"

definition JSON_input :: "tx_input \<Rightarrow> jsstring" where
  "JSON_input i =
     object [member ''txid'' (JSON_string (in_txid i)),
             member ''vout'' (JSON_number (in_vout i)),
             member ''scriptSig'' (JSON_string (scriptSig i)),
             member ''sequence'' (JSON_number (sequence i)),
             member ''witness'' (array (map JSON_string (witness i)))]"

definition JSON_output :: "tx_output \<Rightarrow> jsstring" where
  "JSON_output out =
     object [member ''value'' (JSON_number (out_value out)),
             member ''scriptPubKey''
               (case out_scriptPubKey out of
                  Address a \<Rightarrow> object [member ''address'' (JSON_string a)]
                | Hex h \<Rightarrow> object [member ''hex'' (JSON_string h)])]"

definition JSON_stringify :: "transactionPayload \<Rightarrow> jsstring" where
  "JSON_stringify p =
     object [member ''inputs'' (array (map JSON_input (inputs p))),
             member ''outputs'' (array (map JSON_output (outputs p))),
             member ''version'' (JSON_number (version p)),
             member ''locktime'' (JSON_number (locktime p))]"

text \<open>
  The optional parameters \<open>opReturnHex\<close> and \<open>utxo\<close> are options; \<open>fromPublicKey\<close> is
  destructured and not used.
\<close>

definition createBitcoinTransactionPayload ::
  "jsstring \<Rightarrow> jsstring \<Rightarrow> jsstring \<Rightarrow> jsnum \<Rightarrow> jsstring \<Rightarrow> jsstring option \<Rightarrow> utxo option
     \<Rightarrow> transactionPayload \<times> mpcSigningParams" where
  "createBitcoinTransactionPayload fromAddress fromPublicKey toAddress amount derivationPath
       opReturn utxo_opt =
     (let u = (case utxo_opt of
                 None \<Rightarrow> \<lparr>txid = js ''defaultTxid'', vout = Fin 0,
                           utxo_value = js_add amount (Fin 1000)\<rparr>
               | Some v \<Rightarrow> v);
          base = \<lparr>inputs = [\<lparr>in_txid = txid u, in_vout = vout u, scriptSig = [],
                              sequence = Fin 4294967295, witness = []\<rparr>],
                   outputs = [\<lparr>out_value = amount, out_scriptPubKey = Address toAddress\<rparr>,
                              \<lparr>out_value = js_sub (js_sub (utxo_value u) amount) (Fin 1000),
                               out_scriptPubKey = Address fromAddress\<rparr>],
                   version = Fin 1,
                   locktime = Fin 0\<rparr>;
          p = (case opReturn of
                 None \<Rightarrow> base
               | Some h \<Rightarrow>
                   if h = [] then base
                   else base\<lparr>outputs := outputs base @
                          [\<lparr>out_value = Fin 0,
                            out_scriptPubKey =
                              Hex (js ''6a'' @ Number_toString16 (num (int (hexDecodedLength h)))
                                   @ h)\<rparr>]\<rparr>)
      in (p, \<lparr>path = derivationPath, payload = hashString (JSON_stringify p),
              key_version = Fin 0\<rparr>))"

subsection \<open>The Runes payloads\<close>

text \<open>\<open>supply\<close> defaults to 21000000; \<open>mintHeight\<close> is destructured and not used.\<close>

definition createRuneEtchPayload ::
  "jsstring \<Rightarrow> jsnum \<Rightarrow> jsnum option \<Rightarrow> jsnum option \<Rightarrow> jsstring" where
  "createRuneEtchPayload ticker decimals' supply_opt mintHeight_opt =
     (let supply = (case supply_opt of None \<Rightarrow> Fin 21000000 | Some s \<Rightarrow> s);
          runePrefix = js ''52'';
          etching = js ''45'';
          tickerHex = toStringHex (utf8 ticker);
          decimalsHex = padStart0 2 (Number_toString16 decimals');
          supplyHex = padStart0 16 (Number_toString16 supply)
      in runePrefix @ etching @ tickerHex @ decimalsHex @ supplyHex)"

definition createRuneTransferPayload :: "jsstring \<Rightarrow> jsnum \<Rightarrow> jsstring" where
  "createRuneTransferPayload ticker amount =
     (let runePrefix = js ''52'';
          transfer = js ''54'';
          tickerHex = toStringHex (utf8 ticker);
          amountHex = padStart0 16 (Number_toString16 amount)
      in runePrefix @ transfer @ tickerHex @ amountHex)"

section \<open>The API route \<open>GET /api/tools/bitcoin-transaction\<close>\<close>

text \<open>
  The repository holds two versions of the route handler: \<open>route.ts\<close>, which calls the
  service, and a self-contained one, which builds its payload itself. Both files define
  \<open>parseAmount\<close>, \<open>generateRuneEtchOpReturn\<close> and \<open>generateRuneTransferOpReturn\<close>, word
  for word the same; \<open>route.ts\<close> never calls them.

  \<open>searchParams\<close> is a map from parameter names to values (\<open>searchParams.get(name)\<close> is
  \<open>null\<close> for an absent parameter). \<open>NextResponse.json(body, {status})\<close> is a
  \<open>Response\<close> of a status and a body, the status 200 when none is given.
\<close>

datatype 'p body = ErrorBody (error: jsstring) | SuccessBody 'p

datatype 'p response = Response (status: nat) (body: "'p body")

text \<open>The string of a value already tested truthy.\<close>

fun str :: "jsstring option \<Rightarrow> jsstring" where
  "str None = []"
| "str (Some s) = s"

subsection \<open>Helpers of both files\<close>

definition parseAmount :: "jsstring \<Rightarrow> jsnum" where
  "parseAmount amount =
     (if of_char CHR ''.'' \<in> set amount
      then Math_floor (js_mul (parseFloat amount) (Fin 100000000))
      else parseInt amount)"

definition generateRuneEtchOpReturn :: "jsstring \<Rightarrow> jsnum \<Rightarrow> jsnum \<Rightarrow> jsstring" where
  "generateRuneEtchOpReturn ticker decimals' mintHeight' =
     (let runePrefix = js ''52'';
          tickerHex = toStringHex (utf8 ticker);
          decimalsHex = padStart0 2 (Number_toString16 decimals');
          heightHex = padStart0 8 (Number_toString16 mintHeight')
      in runePrefix @ tickerHex @ decimalsHex @ heightHex)"

definition generateRuneTransferOpReturn :: "jsstring \<Rightarrow> jsnum \<Rightarrow> jsstring" where
  "generateRuneTransferOpReturn ticker amount =
     (let runePrefix = js ''52'';
          transferPrefix = js ''54'';
          tickerHex = toStringHex (utf8 ticker);
          amountHex = padStart0 16 (Number_toString16 amount)
      in runePrefix @ transferPrefix @ tickerHex @ amountHex)"

subsection \<open>The handler of \<open>route.ts\<close>\<close>

text \<open>
  \<open>ACCOUNT_ID\<close> is the constant of the configuration module, possibly undefined;
  \<open>sha256\<close> and \<open>now\<close> are as in the service. \<open>GET_try\<close> is the body of the \<open>try\<close>
  block: it returns a response or throws.
\<close>

definition GET_try ::
  "jsstring option \<Rightarrow> (byte list \<Rightarrow> exn + byte list) \<Rightarrow> nat \<Rightarrow> (jsstring \<rightharpoonup> jsstring)
     \<Rightarrow> exn + tx_payload response" where
  "GET_try ACCOUNT_ID sha256 now searchParams =
     (let action = searchParams (js ''action'');
          receiver = searchParams (js ''receiver'');
          derivationPath = or_default (searchParams (js ''derivationPath'')) (js ''bitcoin-1'');
          amount = searchParams (js ''amount'');
          ticker = searchParams (js ''runeTicker'');
          rune_amount = searchParams (js ''runeAmount'');
          runeDecimals = searchParams (js ''runeDecimals'');
          runeMintHeight = searchParams (js ''runeMintHeight'');
          accountId = (if truthy (searchParams (js ''accountId''))
                       then searchParams (js ''accountId'') else ACCOUNT_ID)
      in if \<not> truthy accountId then
           Inr (Response 400 (ErrorBody (js ''NEAR account ID is required'')))
         else if \<not> truthy action then
           Inr (Response 400 (ErrorBody (js ''Action is required'')))
         else if \<not> truthy receiver then
           Inr (Response 400 (ErrorBody (js ''Receiver address is required'')))
         else
           case deriveAddressFromNearAccount sha256 (str accountId) derivationPath of
             Inl e \<Rightarrow> Inl e
           | Inr d \<Rightarrow>
               if str action = js ''transfer'' then
                 if \<not> truthy amount then
                   Inr (Response 400 (ErrorBody (js ''Amount is required for transfer'')))
                 else
                   Inr (Response 200 (SuccessBody
                     (createBitcoinTransferTransaction now (address d) (str receiver)
                        (parseFloat (str amount)) (publicKey d))))
               else if str action = js ''etch_rune'' then
                 if \<not> truthy ticker then
                   Inr (Response 400 (ErrorBody (js ''Rune ticker is required for etch_rune'')))
                 else
                   Inr (Response 200 (SuccessBody
                     (createEtchRuneTransaction now (address d) (str receiver) (str ticker)
                        (Some (if truthy runeDecimals then parseInt (str runeDecimals) else Fin 0))
                        (Some (if truthy runeMintHeight then parseInt (str runeMintHeight)
                               else Fin 840000))
                        (publicKey d))))
               else if str action = js ''transfer_rune'' then
                 if \<not> truthy amount \<or> \<not> truthy ticker \<or> \<not> truthy rune_amount then
                   Inr (Response 400 (ErrorBody
                     (js ''Amount, rune ticker, and rune amount are required for transfer_rune'')))
                 else
                   Inr (Response 200 (SuccessBody
                     (createTransferRuneTransaction now (address d) (str receiver)
                        (parseFloat (str amount)) (str ticker) (parseInt (str rune_amount))
                        (publicKey d))))
               else
                 Inr (Response 400 (ErrorBody (js ''Unsupported action: '' @ str action))))"

text \<open>The \<open>catch\<close> block: \<open>error.message || 'Failed to create transaction'\<close>, status 500.\<close>

definition GET ::
  "jsstring option \<Rightarrow> (byte list \<Rightarrow> exn + byte list) \<Rightarrow> nat \<Rightarrow> (jsstring \<rightharpoonup> jsstring)
     \<Rightarrow> tx_payload response" where
  "GET ACCOUNT_ID sha256 now searchParams =
     (case GET_try ACCOUNT_ID sha256 now searchParams of
        Inr r \<Rightarrow> r
      | Inl e \<Rightarrow>
          Response 500 (ErrorBody (if message e \<noteq> [] then message e
                                   else js ''Failed to create transaction'')))"

subsection \<open>The self-contained handler\<close>

text \<open>
  The payload object starts with three fields and is extended per action; a field an action
  does not set is \<open>None\<close>. \<open>URL\<close> is the platform's URL parser applied to \<open>request.url\<close>:
  it yields the search parameters or throws.
\<close>

record payload2 =
  nearAccountId :: "jsstring option"
  derivationPath2 :: jsstring
  receiver2 :: jsstring
  action2 :: "jsstring option"
  amountSatoshis2 :: "jsnum option"
  opReturnHex2 :: "jsstring option"
  runeTicker2 :: "jsstring option"
  runeDecimals2 :: "jsstring option"
  runeAmount2 :: "jsstring option"

record success2 =
  transactionPayload2 :: payload2
  message2 :: jsstring
  instructions :: jsstring

definition GET2_try ::
  "jsstring option \<Rightarrow> ('url \<Rightarrow> exn + (jsstring \<rightharpoonup> jsstring)) \<Rightarrow> 'url
     \<Rightarrow> exn + success2 response" where
  "GET2_try ACCOUNT_ID URL url =
     (case URL url of
        Inl e \<Rightarrow> Inl e
      | Inr searchParams \<Rightarrow>
          let action = or_default (searchParams (js ''action'')) (js ''transfer'');
              receiver = searchParams (js ''receiver'');
              amount = searchParams (js ''amount'');
              derivationPath = or_default (searchParams (js ''derivationPath'')) (js ''bitcoin-1'');
              ticker = searchParams (js ''runeTicker'');
              rune_amount = searchParams (js ''runeAmount'');
              runeDecimals = or_default (searchParams (js ''runeDecimals'')) (js ''0'');
              runeMintHeight = searchParams (js ''runeMintHeight'')
          in if \<not> truthy receiver then
               Inr (Response 400 (ErrorBody (js ''Receiver address is required'')))
             else if \<not> truthy amount \<and> (action = js ''transfer'' \<or> action = js ''transfer_rune'') then
               Inr (Response 400 (ErrorBody (js ''Amount is required for transfers'')))
             else if action = js ''etch_rune'' \<and> (\<not> truthy ticker \<or> \<not> truthy runeMintHeight) then
               Inr (Response 400 (ErrorBody
                 (js ''Rune ticker and mint height are required for etching'')))
             else if action = js ''transfer_rune'' \<and> (\<not> truthy ticker \<or> \<not> truthy rune_amount) then
               Inr (Response 400 (ErrorBody
                 (js ''Rune ticker and amount are required for rune transfers'')))
             else
               let base = \<lparr>nearAccountId = ACCOUNT_ID,
                           derivationPath2 = derivationPath,
                           receiver2 = str receiver,
                           action2 = None, amountSatoshis2 = None, opReturnHex2 = None,
                           runeTicker2 = None, runeDecimals2 = None, runeAmount2 = None\<rparr>;
                   p = (if action = js ''transfer'' then
                          base\<lparr>action2 := Some (js ''transfer''),
                               amountSatoshis2 := Some (parseAmount (or_default amount (js ''0'')))\<rparr>
                        else if action = js ''etch_rune'' then
                          base\<lparr>action2 := Some (js ''etch_rune''),
                               amountSatoshis2 := Some (Fin 10000),
                               opReturnHex2 := Some (generateRuneEtchOpReturn
                                  (or_default ticker []) (parseInt runeDecimals)
                                  (parseInt (or_default runeMintHeight (js ''0'')))),
                               runeTicker2 := ticker,
                               runeDecimals2 := Some runeDecimals\<rparr>
                        else if action = js ''transfer_rune'' then
                          base\<lparr>action2 := Some (js ''transfer_rune''),
                               amountSatoshis2 := Some (parseAmount (or_default amount (js ''0''))),
                               opReturnHex2 := Some (generateRuneTransferOpReturn
                                  (or_default ticker []) (parseAmount (or_default rune_amount (js ''0'')))),
                               runeTicker2 := ticker,
                               runeAmount2 := rune_amount\<rparr>
                        else base)
               in Inr (Response 200 (SuccessBody
                    \<lparr>transactionPayload2 = p,
                     message2 = js ''Bitcoin '' @ action @ js '' transaction payload created successfully'',
                     instructions = js ''To sign and broadcast this transaction, use the NEAR Chain Signatures service with the provided derivation path.''\<rparr>)))"

definition GET2 ::
  "jsstring option \<Rightarrow> ('url \<Rightarrow> exn + (jsstring \<rightharpoonup> jsstring)) \<Rightarrow> 'url \<Rightarrow> success2 response" where
  "GET2 ACCOUNT_ID URL url =
     (case GET2_try ACCOUNT_ID URL url of
        Inr r \<Rightarrow> r
      | Inl e \<Rightarrow>
          Response 500 (ErrorBody (js ''Failed to generate Bitcoin transaction payload'')))"

section \<open>Vocabulary of the statements\<close>

text \<open>The exact sum of a list of numbers, \<open>None\<close> when one of them is not finite.\<close>

fun sum_exact :: "jsnum list \<Rightarrow> rat option" where
  "sum_exact [] = Some 0"
| "sum_exact (Fin r # xs) = (case sum_exact xs of Some t \<Rightarrow> Some (r + t) | None \<Rightarrow> None)"
| "sum_exact (_ # xs) = None"

section \<open>Properties\<close>

subsection \<open>Rounding is exact on integers below \<open>2\<^sup>5\<^sup>3\<close>\<close>

lemma pow2_nonneg: "0 \<le> e \<Longrightarrow> pow2 e = 2 ^ nat e"
  by (simp add: pow2_def)

lemma bitlen_pos: "0 < i \<Longrightarrow> 0 < bitlen i"
proof (rule ccontr)
  assume pos: "0 < i" and "\<not> 0 < bitlen i"
  then have "nat (bitlen i) = 0"
    by simp
  with bitlen_bounds [OF pos] have "i < 1"
    by simp
  with pos show False
    by simp
qed

lemma ilog2_int: 
  assumes "0 < i" shows "ilog2 (of_int i) = bitlen i - 1"
proof -
  have b: "2 ^ nat (bitlen i - 1) \<le> i"
    using bitlen_bounds [OF assms] by simp
  have nn: "0 \<le> bitlen i - 1"
    using bitlen_pos [OF assms] by simp
  have "(2::rat) ^ nat (bitlen i - 1) = of_int (2 ^ nat (bitlen i - 1))"
    by simp
  also have "\<dots> \<le> of_int i"
    using b by (simp only: of_int_le_iff)
  finally have "pow2 (bitlen i - 1) \<le> of_int i"
    using nn by (simp add: pow2_nonneg)
  moreover have "bitlen (1::int) = 1"
    by (subst compute_bitlen) simp
  ultimately show ?thesis
    by (simp add: ilog2_def)
qed

lemma round_half_even_int: "round_half_even (of_int k) = k"
  by (simp add: round_half_even_def)

lemma fl_abs_int:
  assumes pos: "0 < j" and small: "j < 2 ^ 53" and x: "\<bar>x\<bar> = of_int j"
  shows "fl x = Fin (sgn x * of_int j)"
proof -
  define L where "L = bitlen j - 1"
  have "2 ^ nat L \<le> j"
    using bitlen_bounds [OF pos] by (simp add: L_def)
  with small have "(2::int) ^ nat L < 2 ^ 53"
    by linarith
  then have "nat L < 53"
    by (simp only: power_strict_increasing_iff)
  with bitlen_pos [OF pos] have L: "0 \<le> L" "L \<le> 52"
    by (simp_all add: L_def)
  define e where "e = max (ilog2 (rat_of_int j) - 52) (- 1074)"
  have e: "e = L - 52"
    using L pos by (simp add: e_def ilog2_int L_def)
  then have e_le: "e \<le> 0"
    using L by simp
  have p: "pow2 e = 1 / 2 ^ nat (- e)"
  proof (cases "e = 0")
    case True
    then show ?thesis by (simp add: pow2_def)
  next
    case False
    with e_le show ?thesis by (simp add: pow2_def)
  qed
  have q: "rat_of_int j / pow2 e = of_int (j * 2 ^ nat (- e))"
    by (simp add: p)
  have m: "round_half_even (rat_of_int j / pow2 e) = j * 2 ^ nat (- e)"
    by (simp only: q round_half_even_int)
  have r: "of_int (j * 2 ^ nat (- e)) * pow2 e = rat_of_int j"
    by (simp add: p)
  have ne: "x \<noteq> 0"
    using pos x by auto
  have no: "\<not> (971 < e \<or> (e = 971 \<and> 2 ^ 53 \<le> j * 2 ^ nat (- e)))"
    using e_le by simp
  have "fl x =
      (if 971 < e \<or> (e = 971 \<and> 2 ^ 53 \<le> j * 2 ^ nat (- e))
       then (if 0 < x then PInf else NInf)
       else Fin (sgn x * (of_int (j * 2 ^ nat (- e)) * pow2 e)))"
    unfolding fl_def Let_def x e_def [symmetric] m using ne by simp
  also have "\<dots> = Fin (sgn x * rat_of_int j)"
    using no by (simp only: r if_False)
  finally show ?thesis .
qed

lemma fl_int: 
  assumes "\<bar>i\<bar> < 2 ^ 53"
  shows "fl (of_int i) = Fin (of_int i)"
proof (cases "i = 0")
  case True
  then show ?thesis by (simp add: fl_def)
next
  case False
  then have pos: "0 < \<bar>i\<bar>"
    by simp
  have "\<bar>rat_of_int i\<bar> = of_int \<bar>i\<bar>"
    by simp
  with pos assms have "fl (of_int i) = Fin (sgn (rat_of_int i) * of_int \<bar>i\<bar>)"
    by (rule fl_abs_int)
  also have "sgn (rat_of_int i) * of_int \<bar>i\<bar> = of_int i"
    by (simp add: sgn_if)
  finally show ?thesis .
qed

lemma js_add_num: "\<bar>a + b\<bar> < 2 ^ 53 \<Longrightarrow> js_add (num a) (num b) = num (a + b)"
  using fl_int [of "a + b"] by (simp add: num_def)

lemma js_sub_num: "\<bar>a - b\<bar> < 2 ^ 53 \<Longrightarrow> js_sub (num a) (num b) = num (a - b)"
  using fl_int [of "a - b"] by (simp add: num_def js_sub_def)

subsection \<open>Hexadecimal digits and the padding loop\<close>

lemma unat_small: "k < 65536 \<Longrightarrow> unat (of_nat k :: code_unit) = k"
  by (simp add: unat_of_nat)

lemma hexdigit_lower: "d < 16 \<Longrightarrow> is_hex_lower (hexdigit d)"
  unfolding hexdigit_def is_hex_lower_def word_le_nat_alt
  by (simp add: unat_small del: of_nat_add)

lemma toHex_lower: "list_all is_hex_lower (toHex n)"
proof (induction n rule: toHex.induct)
  case (1 n)
  show ?case
  proof (cases "n < 16")
    case True
    then show ?thesis
      by (subst toHex.simps) (simp add: hexdigit_lower)
  next
    case False
    with "1" have "list_all is_hex_lower (toHex (n div 16))"
      by simp
    moreover have "is_hex_lower (hexdigit (n mod 16))"
      by (simp add: hexdigit_lower)
    ultimately show ?thesis
      using False by (subst toHex.simps) simp
  qed
qed

lemma abs_toString16: "Number_toString16 (Math_abs (num i)) = toHex (nat \<bar>i\<bar>)"
proof -
  have "Math_abs (num i) = num \<bar>i\<bar>"
    by (simp add: num_def)
  then show ?thesis
    by (simp add: Number_toString16_num)
qed

lemma padHash_length: "64 \<le> length (padHash hash hexHash)"
  by (induction hash hexHash rule: padHash.induct) (subst padHash.simps, simp)

lemma padHash_lower:
  "list_all is_hex_lower hexHash \<Longrightarrow> list_all is_hex_lower (padHash hash hexHash)"
proof (induction hash hexHash rule: padHash.induct)
  case (1 hash hexHash)
  show ?case
  proof (cases "length hexHash < 64")
    case True
    have "list_all is_hex_lower
            (hexHash @ Number_toString16 (Math_abs (num (xor32 hash (int (length hexHash))))))"
      using "1.prems" by (simp add: abs_toString16 toHex_lower)
    with "1.IH" True show ?thesis
      by (subst padHash.simps) simp
  next
    case False
    with "1.prems" show ?thesis
      by (subst padHash.simps) simp
  qed
qed

lemma hashString_shape:
  "length (hashString input) = 64 \<and> list_all is_hex_lower (hashString input)"
proof -
  let ?h = "hashLoop input"
  let ?s = "padHash ?h (Number_toString16 (Math_abs (num ?h)))"
  have len: "64 \<le> length ?s"
    by (rule padHash_length)
  have "list_all is_hex_lower (Number_toString16 (Math_abs (num ?h)))"
    by (simp add: abs_toString16 toHex_lower)
  then have "list_all is_hex_lower ?s"
    by (rule padHash_lower)
  then have "list_all is_hex_lower (take 64 ?s)"
    by (simp add: list_all_iff) (meson in_set_takeD)
  with len show ?thesis
    by (simp add: hashString_def Let_def)
qed

subsection \<open>Lengths of hexadecimal renderings\<close>

lemma toHex_length: "0 < k \<Longrightarrow> n < 16 ^ k \<Longrightarrow> length (toHex n) \<le> k"
proof (induction n arbitrary: k rule: toHex.induct)
  case (1 n)
  show ?case
  proof (cases "n < 16")
    case True
    with "1.prems" show ?thesis
      by (subst toHex.simps) simp
  next
    case False
    with "1.prems" have k: "1 < k"
      by (cases "k = 1") auto
    then obtain k' where k': "k = Suc k'" "0 < k'"
      by (cases k) auto
    with "1.prems" have "n div 16 < 16 ^ k'"
      by (simp add: less_mult_imp_div_less mult.commute)
    with "1.IH" [OF False k'(2)] have "length (toHex (n div 16)) \<le> k'"
      by simp
    with False k' show ?thesis
      by (subst toHex.simps) simp
  qed
qed

lemma padStart0_length: "length s \<le> n \<Longrightarrow> length (padStart0 n s) = n"
  by (simp add: padStart0_def)

lemma padStart0_lower: "list_all is_hex_lower s \<Longrightarrow> list_all is_hex_lower (padStart0 n s)"
  by (auto simp: padStart0_def list_all_iff is_hex_lower_def)

lemma padded_hex:
  assumes "0 \<le> i" and "i < 16 ^ k" and "0 < k"
  shows "length (padStart0 k (Number_toString16 (num i))) = k
         \<and> list_all is_hex_lower (padStart0 k (Number_toString16 (num i)))"
proof -
  have "nat i < 16 ^ k"
    using assms(1,2) by (simp add: nat_less_iff)
  with assms(3) have "length (toHex (nat i)) \<le> k"
    by (rule toHex_length)
  then show ?thesis
    using assms(1) by (simp add: Number_toString16_num padStart0_length padStart0_lower toHex_lower)
qed

lemma hexByte_lower: "list_all is_hex_lower (hexByte b)"
proof -
  have "unat b < 2 ^ 8"
    using unsigned_less [of b] by simp
  then have "unat b div 16 < 16"
    by simp
  then show ?thesis
    by (simp add: hexByte_def hexdigit_lower)
qed

lemma toStringHex_length: "length (toStringHex bs) = 2 * length bs"
  by (induction bs) (simp_all add: toStringHex_def hexByte_def)

lemma toStringHex_lower: "list_all is_hex_lower (toStringHex bs)"
  using hexByte_lower by (induction bs) (simp_all add: toStringHex_def)

section \<open>The claims\<close>

subsection \<open>Amounts\<close>

lemma digit_range: "is_digit c \<Longrightarrow> 48 \<le> unat c \<and> unat c \<le> 57"
  by (simp add: is_digit_def word_le_nat_alt)

lemma digit_not_whitespace: "is_digit c \<Longrightarrow> \<not> is_whitespace c"
  using digit_range [of c] by (auto simp: is_whitespace_def word_le_nat_alt)

lemma digit_radix: "is_digit c \<Longrightarrow> radixDigit 10 c = Some (unat c - 48)"
  using digit_range [of c] by (auto simp: radixDigit_def is_digit_def)

lemma digit_not_sign:
  "is_digit c \<Longrightarrow> c \<noteq> of_char CHR ''-'' \<and> c \<noteq> of_char CHR ''+'' \<and> c \<noteq> of_char CHR ''.''"
  using digit_range [of c] by auto

lemma digits_no_prefix:
  assumes "list_all is_digit ds"
  shows "take 2 ds \<noteq> js ''0x'' \<and> take 2 ds \<noteq> js ''0X''"
proof (cases ds)
  case Nil
  then show ?thesis by (simp add: js_def)
next
  case (Cons c cs)
  show ?thesis
  proof (cases cs)
    case Nil
    with Cons show ?thesis by (simp add: js_def)
  next
    case (Cons d es)
    with assms \<open>ds = c # cs\<close> have "is_digit d"
      by simp
    then have "d \<noteq> 120 \<and> d \<noteq> 88"
      using digit_range [of d] by auto
    with Cons \<open>ds = c # cs\<close> show ?thesis
      by (simp add: js_def)
  qed
qed

lemma radixValue_digits:
  "list_all is_digit ds \<Longrightarrow>
   foldl (\<lambda>a c. 10 * a + (case radixDigit 10 c of Some d \<Rightarrow> d | None \<Rightarrow> 0)) acc ds
   = foldl (\<lambda>a c. 10 * a + (unat c - 48)) acc ds"
  by (induction ds arbitrary: acc) (simp_all add: digit_radix)

lemma fl_nat: "n < 2 ^ 53 \<Longrightarrow> fl (of_nat n) = Fin (of_nat n)"
  using fl_int [of "int n"] by simp

text \<open>
  On a non-empty string of decimal digits whose value is below \<open>2\<^sup>5\<^sup>3\<close>, \<open>parseAmount\<close>
  returns that value.
\<close>

lemma parseAmount_digits:
  assumes ne: "ds \<noteq> []" and dig: "list_all is_digit ds" and small: "digitsValue ds < 2 ^ 53"
  shows "parseAmount ds = Fin (of_nat (digitsValue ds))"
proof -
  from ne obtain c cs where ds: "ds = c # cs"
    by (cases ds) auto
  with dig have c: "is_digit c"
    by simp
  have nodot: "of_char CHR ''.'' \<notin> set ds"
    using dig digit_not_sign by (auto simp: list_all_iff)
  have ws: "dropWhile is_whitespace ds = ds"
    using c by (simp add: ds digit_not_whitespace)
  have tw: "takeWhile (\<lambda>c. radixDigit 10 c \<noteq> None) ds = ds"
    using dig by (simp add: list_all_iff digit_radix)
  have rv: "radixValue 10 ds = digitsValue ds"
    using radixValue_digits [OF dig] by (simp add: radixValue_def digitsValue_def)
  have sign: "(case ds of
                 [] \<Rightarrow> (False, [])
               | c # r \<Rightarrow>
                   if c = of_char CHR ''-'' then (True, r)
                   else if c = of_char CHR ''+'' then (False, r)
                   else (False, ds)) = (False, ds)"
    using digit_not_sign [OF c] by (simp add: ds)
  have "parseInt ds = fl (of_nat (digitsValue ds))"
    using digits_no_prefix [OF dig] ne
    by (simp only: parseInt_def ws Let_def sign prod.case tw rv if_False simp_thms)
  with small nodot show ?thesis
    by (simp add: parseAmount_def fl_nat)
qed

text \<open>
  C1 at the amount \<open>0.29\<close>: the nearest double to 0.29 is below it, its product with
  \<open>10\<^sup>8\<close> rounds to a double below 29000000, and \<open>parseAmount\<close> returns 28999999, where
  \<open>\<lfloor>0.29 \<times> 10\<^sup>8\<rfloor>\<close> is 29000000.
\<close>

theorem parseAmount_0_29:
  "parseAmount (js ''0.29'') = Fin 28999999
   \<and> \<lfloor>(29 / 100 :: rat) * 100000000\<rfloor> = 29000000"
  by code_simp

lemma parseFloat_1_5: "parseFloat (js ''1.5'') = Fin (3 / 2)"
  by code_simp

lemma parseAmount_1_5: "parseAmount (js ''1.5'') = Fin 150000000"
  by code_simp

lemma toSatoshis_1_5: "toSatoshis (Fin (3 / 2)) = Fin 1"
  by code_simp

text \<open>
  C2 at the amount \<open>1.5\<close>: the handler of \<open>route.ts\<close> passes \<open>parseFloat(amount)\<close> to the
  service, which multiplies by \<open>10\<^sup>8\<close> only below 1, so the payload holds 1 satoshi;
  \<open>parseAmount\<close>, which the other handler calls, gives 150000000.
\<close>

theorem GET_transfer_1_5:
  "GET (Some (js ''alice.near'')) (\<lambda>bs. Inr digest) now
       [js ''action'' \<mapsto> js ''transfer'', js ''receiver'' \<mapsto> js ''bc1qreceiver'',
        js ''amount'' \<mapsto> js ''1.5'']
     = Response 200 (SuccessBody
         (createBitcoinTransferTransaction now (js ''bc1q'' @ toStringHex (take 20 digest))
            (js ''bc1qreceiver'') (Fin (3 / 2)) (toStringHex digest)))
   \<and> amountSatoshis (createBitcoinTransferTransaction now sender receiver (Fin (3 / 2)) pk)
       = Fin 1
   \<and> parseAmount (js ''1.5'') = Fin 150000000"
proof -
  have "GET (Some (js ''alice.near'')) (\<lambda>bs. Inr digest) now
       [js ''action'' \<mapsto> js ''transfer'', js ''receiver'' \<mapsto> js ''bc1qreceiver'',
        js ''amount'' \<mapsto> js ''1.5'']
     = Response 200 (SuccessBody
         (createBitcoinTransferTransaction now (js ''bc1q'' @ toStringHex (take 20 digest))
            (js ''bc1qreceiver'') (parseFloat (js ''1.5'')) (toStringHex digest)))"
    by (simp add: GET_def GET_try_def Let_def deriveAddressFromNearAccount_def js_def)
  moreover have
    "amountSatoshis (createBitcoinTransferTransaction now sender receiver (Fin (3 / 2)) pk) = Fin 1"
    by (simp add: createBitcoinTransferTransaction_def toSatoshis_1_5)
  ultimately show ?thesis
    by (simp add: parseFloat_1_5 parseAmount_1_5)
qed



subsection \<open>The Runes payloads\<close>

text \<open>
  C3 as stated fails: with \<open>decimals = 256\<close> the decimals field prints as the three
  digits \<open>100\<close>, and the payload for the empty ticker has 23 characters.
\<close>

theorem createRuneEtchPayload_odd_length:
  "\<not> even (length (createRuneEtchPayload (js '''') (num 256) None None))"
  by code_simp

text \<open>
  C3, amended: for every ticker and all numbers, the etch payload starts with \<open>5245\<close> and
  the transfer payload with \<open>5254\<close>; when \<open>decimals\<close> is an integer from 0 to 255 and the
  supply (given or defaulted) or amount is an integer from 0 to \<open>2\<^sup>6\<^sup>4 - 1\<close>, the payload is
  an even-length string of lowercase hexadecimal digits.
\<close>

theorem rune_payloads_hex:
  assumes "0 \<le> i" and "i < 256" and "0 \<le> j" and "j < 2 ^ 64"
  shows "take 4 (createRuneEtchPayload ticker d s m) = js ''5245''
       \<and> take 4 (createRuneTransferPayload ticker a) = js ''5254''
       \<and> even (length (createRuneEtchPayload ticker (num i) (Some (num j)) m))
       \<and> list_all is_hex_lower (createRuneEtchPayload ticker (num i) (Some (num j)) m)
       \<and> even (length (createRuneEtchPayload ticker (num i) None m))
       \<and> list_all is_hex_lower (createRuneEtchPayload ticker (num i) None m)
       \<and> even (length (createRuneTransferPayload ticker (num j)))
       \<and> list_all is_hex_lower (createRuneTransferPayload ticker (num j))"
proof -
  have pre: "list_all is_hex_lower (js ''52'')" "list_all is_hex_lower (js ''45'')"
    "list_all is_hex_lower (js ''54'')"
    by (simp_all add: js_def is_hex_lower_def)
  have dec: "length (padStart0 2 (Number_toString16 (num i))) = 2"
    "list_all is_hex_lower (padStart0 2 (Number_toString16 (num i)))"
    using padded_hex [of i 2] assms(1,2) by simp_all
  have amt: "length (padStart0 16 (Number_toString16 (num j))) = 16"
    "list_all is_hex_lower (padStart0 16 (Number_toString16 (num j)))"
    using padded_hex [of j 16] assms(3,4) by simp_all
  have def: "length (padStart0 16 (Number_toString16 (Fin 21000000))) = 16"
    "list_all is_hex_lower (padStart0 16 (Number_toString16 (Fin 21000000)))"
    using padded_hex [of 21000000 16] by (simp_all add: num_def)
  have "take 4 (createRuneEtchPayload ticker d s m) = js ''5245''"
    by (simp add: createRuneEtchPayload_def js_def)
  moreover have "take 4 (createRuneTransferPayload ticker a) = js ''5254''"
    by (simp add: createRuneTransferPayload_def js_def)
  moreover have "even (length (createRuneEtchPayload ticker (num i) (Some (num j)) m))"
    using dec amt by (simp add: createRuneEtchPayload_def toStringHex_length js_def)
  moreover have "list_all is_hex_lower (createRuneEtchPayload ticker (num i) (Some (num j)) m)"
    using pre dec amt by (simp add: createRuneEtchPayload_def toStringHex_lower)
  moreover have "even (length (createRuneEtchPayload ticker (num i) None m))"
    using dec def by (simp add: createRuneEtchPayload_def toStringHex_length js_def)
  moreover have "list_all is_hex_lower (createRuneEtchPayload ticker (num i) None m)"
    using pre dec def by (simp add: createRuneEtchPayload_def toStringHex_lower)
  moreover have "even (length (createRuneTransferPayload ticker (num j)))"
    using amt by (simp add: createRuneTransferPayload_def toStringHex_length js_def)
  moreover have "list_all is_hex_lower (createRuneTransferPayload ticker (num j))"
    using pre amt by (simp add: createRuneTransferPayload_def toStringHex_lower)
  ultimately show ?thesis
    by blast
qed

theorem rune_payloads_hex_witness:
  "(0::int) \<le> 8 \<and> (8::int) < 256 \<and> (0::int) \<le> 1000 \<and> (1000::int) < 2 ^ 64
   \<and> take 4 (createRuneEtchPayload (js ''RUNE'') NaN (Some PInf) None) = js ''5245''
   \<and> take 4 (createRuneTransferPayload (js ''RUNE'') NaN) = js ''5254''
   \<and> even (length (createRuneEtchPayload (js ''RUNE'') (num 8) (Some (num 1000)) None))
   \<and> list_all is_hex_lower (createRuneEtchPayload (js ''RUNE'') (num 8) (Some (num 1000)) None)
   \<and> even (length (createRuneEtchPayload (js ''RUNE'') (num 8) None None))
   \<and> list_all is_hex_lower (createRuneEtchPayload (js ''RUNE'') (num 8) None None)
   \<and> even (length (createRuneTransferPayload (js ''RUNE'') (num 1000)))
   \<and> list_all is_hex_lower (createRuneTransferPayload (js ''RUNE'') (num 1000))"
  using rune_payloads_hex [of 8 1000 "js ''RUNE''" NaN "Some PInf" None NaN]
  by simp

subsection \<open>Validation in the two handlers\<close>

lemma literal_nonempty: "js (c # cs) \<noteq> []"
  by (simp add: js_def)

text \<open>
  C5: a request without \<open>receiver\<close> gets status 400 and an error body, whatever its
  \<open>action\<close>; so does a request with \<open>action=transfer\<close> or \<open>action=transfer_rune\<close> and no
  \<open>amount\<close>. Both handlers test falsiness, so an empty value counts as absent. The
  statement for \<open>route.ts\<close> about \<open>amount\<close> is for a hash function that returns, the one
  for the other handler for a request URL that parses.
\<close>

theorem missing_receiver_or_amount_400:
  "(\<not> truthy (searchParams (js ''receiver'')) \<longrightarrow>
      status (GET ACCOUNT_ID sha now searchParams) = 400
      \<and> is_ErrorBody (body (GET ACCOUNT_ID sha now searchParams)))
   \<and> (\<not> truthy (searchParams (js ''receiver'')) \<and> URL url = Inr searchParams \<longrightarrow>
      status (GET2 ACCOUNT_ID URL url) = 400 \<and> is_ErrorBody (body (GET2 ACCOUNT_ID URL url)))
   \<and> (\<not> truthy (searchParams (js ''amount''))
        \<and> (searchParams (js ''action'') = Some (js ''transfer'')
           \<or> searchParams (js ''action'') = Some (js ''transfer_rune'')) \<longrightarrow>
      status (GET ACCOUNT_ID (\<lambda>bs. Inr (digest bs)) now searchParams) = 400
      \<and> is_ErrorBody (body (GET ACCOUNT_ID (\<lambda>bs. Inr (digest bs)) now searchParams)))
   \<and> (\<not> truthy (searchParams (js ''amount''))
        \<and> (searchParams (js ''action'') = Some (js ''transfer'')
           \<or> searchParams (js ''action'') = Some (js ''transfer_rune''))
        \<and> URL url = Inr searchParams \<longrightarrow>
      status (GET2 ACCOUNT_ID URL url) = 400 \<and> is_ErrorBody (body (GET2 ACCOUNT_ID URL url)))"
proof -
  have r1: "status (GET ACCOUNT_ID sha now searchParams) = 400
      \<and> is_ErrorBody (body (GET ACCOUNT_ID sha now searchParams))"
    if "\<not> truthy (searchParams (js ''receiver''))"
    using that by (simp add: GET_def GET_try_def Let_def)
  have r2: "status (GET2 ACCOUNT_ID URL url) = 400 \<and> is_ErrorBody (body (GET2 ACCOUNT_ID URL url))"
    if "\<not> truthy (searchParams (js ''receiver''))" and "URL url = Inr searchParams"
    using that by (simp add: GET2_def GET2_try_def Let_def)
  have a1: "status (GET ACCOUNT_ID (\<lambda>bs. Inr (digest bs)) now searchParams) = 400
      \<and> is_ErrorBody (body (GET ACCOUNT_ID (\<lambda>bs. Inr (digest bs)) now searchParams))"
    if "\<not> truthy (searchParams (js ''amount''))"
      and "searchParams (js ''action'') = Some (js ''transfer'')
           \<or> searchParams (js ''action'') = Some (js ''transfer_rune'')"
    using that
    by (auto simp: GET_def GET_try_def Let_def deriveAddressFromNearAccount_def js_def)
  have a2: "status (GET2 ACCOUNT_ID URL url) = 400 \<and> is_ErrorBody (body (GET2 ACCOUNT_ID URL url))"
    if "\<not> truthy (searchParams (js ''amount''))"
      and "searchParams (js ''action'') = Some (js ''transfer'')
           \<or> searchParams (js ''action'') = Some (js ''transfer_rune'')"
      and "URL url = Inr searchParams"
    using that by (auto simp: GET2_def GET2_try_def Let_def js_def)
  from r1 r2 a1 a2 show ?thesis
    by blast
qed

theorem missing_receiver_or_amount_400_witness:
  "\<not> truthy ([js ''action'' \<mapsto> js ''transfer'', js ''receiver'' \<mapsto> js ''bc1qreceiver'']
                (js ''amount''))
   \<and> [js ''action'' \<mapsto> js ''transfer'', js ''receiver'' \<mapsto> js ''bc1qreceiver''] (js ''action'')
       = Some (js ''transfer'')
   \<and> status (GET (Some (js ''alice.near'')) (\<lambda>bs. Inr (take 32 bs)) 0
        [js ''action'' \<mapsto> js ''transfer'', js ''receiver'' \<mapsto> js ''bc1qreceiver'']) = 400
   \<and> is_ErrorBody (body (GET (Some (js ''alice.near'')) (\<lambda>bs. Inr (take 32 bs)) 0
        [js ''action'' \<mapsto> js ''transfer'', js ''receiver'' \<mapsto> js ''bc1qreceiver'']))
   \<and> status (GET2 (Some (js ''alice.near'')) (\<lambda>u. Inr u)
        [js ''action'' \<mapsto> js ''transfer'', js ''receiver'' \<mapsto> js ''bc1qreceiver'']) = 400
   \<and> \<not> truthy ([js ''action'' \<mapsto> js ''etch_rune''] (js ''receiver''))
   \<and> status (GET (Some (js ''alice.near'')) (\<lambda>bs. Inr (take 32 bs)) 0
        [js ''action'' \<mapsto> js ''etch_rune'']) = 400
   \<and> status (GET2 (Some (js ''alice.near'')) (\<lambda>u. Inr u) [js ''action'' \<mapsto> js ''etch_rune''])
       = 400"
  using missing_receiver_or_amount_400
      [where searchParams = "[js ''action'' \<mapsto> js ''transfer'',
                              js ''receiver'' \<mapsto> js ''bc1qreceiver'']"
         and ACCOUNT_ID = "Some (js ''alice.near'')" and sha = "\<lambda>bs. Inr (take 32 bs)"
         and now = 0 and URL = "\<lambda>u. Inr u"
         and url = "[js ''action'' \<mapsto> js ''transfer'', js ''receiver'' \<mapsto> js ''bc1qreceiver'']"
         and digest = "take 32"]
    missing_receiver_or_amount_400
      [where searchParams = "[js ''action'' \<mapsto> js ''etch_rune'']"
         and ACCOUNT_ID = "Some (js ''alice.near'')" and sha = "\<lambda>bs. Inr (take 32 bs)"
         and now = 0 and URL = "\<lambda>u. Inr u" and url = "[js ''action'' \<mapsto> js ''etch_rune'']"
         and digest = "take 32"]
  by (simp add: js_def)

text \<open>
  C6 as stated fails for \<open>route.ts\<close>: a request with \<open>receiver\<close> and \<open>amount\<close> and no
  \<open>action\<close> is rejected.
\<close>

theorem GET_action_required:
  "GET (Some (js ''alice.near'')) (\<lambda>bs. Inr (take 32 bs)) 0
       [js ''receiver'' \<mapsto> js ''bc1qreceiver'', js ''amount'' \<mapsto> js ''1000'']
     = Response 400 (ErrorBody (js ''Action is required''))"
  by (simp add: GET_def GET_try_def Let_def js_def)

text \<open>
  C6, amended: the self-contained handler treats a request with no \<open>action\<close>, a
  \<open>receiver\<close> and an \<open>amount\<close> as a transfer: status 200, a payload with action
  \<open>transfer\<close> and the satoshis of the amount. The handler of \<open>route.ts\<close> has no default:
  when an account id is given or configured it answers a request with no \<open>action\<close> with
  status 400 and \<open>Action is required\<close>.
\<close>

theorem action_default:
  "(\<not> truthy (searchParams (js ''action'')) \<and> truthy (searchParams (js ''receiver''))
      \<and> truthy (searchParams (js ''amount'')) \<and> URL url = Inr searchParams \<longrightarrow>
      (\<exists>p. GET2 ACCOUNT_ID URL url = Response 200 (SuccessBody p)
           \<and> action2 (transactionPayload2 p) = Some (js ''transfer'')
           \<and> amountSatoshis2 (transactionPayload2 p)
               = Some (parseAmount (str (searchParams (js ''amount''))))
           \<and> receiver2 (transactionPayload2 p) = str (searchParams (js ''receiver''))))
   \<and> (\<not> truthy (searchParams (js ''action''))
        \<and> (truthy (searchParams (js ''accountId'')) \<or> truthy ACCOUNT_ID) \<longrightarrow>
      GET ACCOUNT_ID sha now searchParams
        = Response 400 (ErrorBody (js ''Action is required'')))"
proof -
  have d: "or_default (searchParams (js ''action'')) (js ''transfer'') = js ''transfer''"
    if "\<not> truthy (searchParams (js ''action''))"
    using that by (cases "searchParams (js ''action'')") simp_all
  have a: "or_default (searchParams (js ''amount'')) (js ''0'') = str (searchParams (js ''amount''))"
    if "truthy (searchParams (js ''amount''))"
    using that by (cases "searchParams (js ''amount'')") simp_all
  have p1: "\<exists>p. GET2 ACCOUNT_ID URL url = Response 200 (SuccessBody p)
           \<and> action2 (transactionPayload2 p) = Some (js ''transfer'')
           \<and> amountSatoshis2 (transactionPayload2 p)
               = Some (parseAmount (str (searchParams (js ''amount''))))
           \<and> receiver2 (transactionPayload2 p) = str (searchParams (js ''receiver''))"
    if "\<not> truthy (searchParams (js ''action''))" and "truthy (searchParams (js ''receiver''))"
      and "truthy (searchParams (js ''amount''))" and "URL url = Inr searchParams"
    using that by (simp add: GET2_def GET2_try_def Let_def d a) (simp add: js_def)
  have p2: "GET ACCOUNT_ID sha now searchParams
        = Response 400 (ErrorBody (js ''Action is required''))"
    if "\<not> truthy (searchParams (js ''action''))"
      and "truthy (searchParams (js ''accountId'')) \<or> truthy ACCOUNT_ID"
    using that by (auto simp: GET_def GET_try_def Let_def)
  from p1 p2 show ?thesis
    by blast
qed

theorem action_default_witness:
  "\<not> truthy ([js ''receiver'' \<mapsto> js ''bc1qreceiver'', js ''amount'' \<mapsto> js ''1000'']
                (js ''action''))
   \<and> truthy ([js ''receiver'' \<mapsto> js ''bc1qreceiver'', js ''amount'' \<mapsto> js ''1000'']
                (js ''receiver''))
   \<and> truthy ([js ''receiver'' \<mapsto> js ''bc1qreceiver'', js ''amount'' \<mapsto> js ''1000'']
                (js ''amount''))
   \<and> truthy (Some (js ''alice.near''))
   \<and> (\<exists>p. GET2 (Some (js ''alice.near'')) (\<lambda>u. Inr u)
              [js ''receiver'' \<mapsto> js ''bc1qreceiver'', js ''amount'' \<mapsto> js ''1000'']
            = Response 200 (SuccessBody p)
          \<and> action2 (transactionPayload2 p) = Some (js ''transfer'')
          \<and> amountSatoshis2 (transactionPayload2 p) = Some (parseAmount (js ''1000''))
          \<and> receiver2 (transactionPayload2 p) = js ''bc1qreceiver'')
   \<and> GET (Some (js ''alice.near'')) (\<lambda>bs. Inr (take 32 bs)) 0
         [js ''receiver'' \<mapsto> js ''bc1qreceiver'', js ''amount'' \<mapsto> js ''1000'']
       = Response 400 (ErrorBody (js ''Action is required''))"
  using action_default
      [where searchParams = "[js ''receiver'' \<mapsto> js ''bc1qreceiver'',
                              js ''amount'' \<mapsto> js ''1000'']"
         and URL = "\<lambda>u. Inr u"
         and url = "[js ''receiver'' \<mapsto> js ''bc1qreceiver'', js ''amount'' \<mapsto> js ''1000'']"
         and ACCOUNT_ID = "Some (js ''alice.near'')" and sha = "\<lambda>bs. Inr (take 32 bs)"
         and now = 0]
  by (simp add: js_def)

subsection \<open>The defaults of etch_rune\<close>

lemma unsignedToString_840000: "unsignedToString 840000 = js ''840000''"
  by code_simp

text \<open>
  C7 as stated fails for the self-contained handler: it requires \<open>runeMintHeight\<close> and
  rejects an \<open>etch_rune\<close> request without it.
\<close>

theorem GET2_etch_rune_mint_height_required:
  "GET2 (Some (js ''alice.near'')) (\<lambda>u. Inr u)
        [js ''action'' \<mapsto> js ''etch_rune'', js ''receiver'' \<mapsto> js ''bc1qreceiver'',
         js ''runeTicker'' \<mapsto> js ''RUNE'']
     = Response 400 (ErrorBody (js ''Rune ticker and mint height are required for etching''))"
  by (simp add: GET2_def GET2_try_def Let_def js_def)

text \<open>
  C7, amended: for an \<open>etch_rune\<close> request with \<open>receiver\<close> and \<open>runeTicker\<close> and without
  \<open>runeDecimals\<close> and \<open>runeMintHeight\<close>, the handler of \<open>route.ts\<close> (an account id given or
  configured, the hash function returning) answers 200 with a payload of decimals 0 and
  mint height 840000, which its OP_RETURN data spells out; the self-contained handler
  answers 400: it defaults \<open>runeDecimals\<close> only and requires \<open>runeMintHeight\<close>.
\<close>

theorem etch_rune_defaults:
  assumes "searchParams (js ''action'') = Some (js ''etch_rune'')"
    and "truthy (searchParams (js ''receiver''))"
    and "truthy (searchParams (js ''runeTicker''))"
    and "\<not> truthy (searchParams (js ''runeDecimals''))"
    and "\<not> truthy (searchParams (js ''runeMintHeight''))"
    and "truthy (searchParams (js ''accountId'')) \<or> truthy ACCOUNT_ID"
    and "URL url = Inr searchParams"
  shows "(\<exists>p. GET ACCOUNT_ID (\<lambda>bs. Inr (digest bs)) now searchParams
                = Response 200 (SuccessBody p)
             \<and> decimals p = Some (Fin 0)
             \<and> mintHeight p = Some (Fin 840000)
             \<and> opReturnHex p = Some (toStringHex (utf8
                  (js ''RUNE_ETCH:'' @ str (searchParams (js ''runeTicker'')) @ js '':0:840000''))))
       \<and> GET2 ACCOUNT_ID URL url
           = Response 400 (ErrorBody (js ''Rune ticker and mint height are required for etching''))"
proof -
  have lit: "js ''etch_rune'' \<noteq> js ''transfer''" "js ''etch_rune'' \<noteq> js ''transfer_rune''"
    "js ''etch_rune'' \<noteq> []"
    by (simp_all add: js_def)
  have tail: "js '':'' @ js ''0'' @ js '':'' @ js ''840000'' = js '':0:840000''"
    by (simp add: js_def)
  have "\<exists>p. GET ACCOUNT_ID (\<lambda>bs. Inr (digest bs)) now searchParams
                = Response 200 (SuccessBody p)
             \<and> decimals p = Some (Fin 0)
             \<and> mintHeight p = Some (Fin 840000)
             \<and> opReturnHex p = Some (toStringHex (utf8
                  (js ''RUNE_ETCH:'' @ str (searchParams (js ''runeTicker'')) @ js '':0:840000'')))"
    using assms(1-6)
    by (auto simp: GET_def GET_try_def Let_def deriveAddressFromNearAccount_def lit
          createEtchRuneTransaction_def unsignedToString_840000 tail)
  moreover have "GET2 ACCOUNT_ID URL url
      = Response 400 (ErrorBody (js ''Rune ticker and mint height are required for etching''))"
    using assms(1,2,5,7) by (simp add: GET2_def GET2_try_def Let_def lit)
  ultimately show ?thesis
    by blast
qed

theorem etch_rune_defaults_witness:
  "[js ''action'' \<mapsto> js ''etch_rune'', js ''receiver'' \<mapsto> js ''bc1qreceiver'',
    js ''runeTicker'' \<mapsto> js ''RUNE''] (js ''action'') = Some (js ''etch_rune'')
   \<and> truthy ([js ''action'' \<mapsto> js ''etch_rune'', js ''receiver'' \<mapsto> js ''bc1qreceiver'',
               js ''runeTicker'' \<mapsto> js ''RUNE''] (js ''receiver''))
   \<and> truthy ([js ''action'' \<mapsto> js ''etch_rune'', js ''receiver'' \<mapsto> js ''bc1qreceiver'',
               js ''runeTicker'' \<mapsto> js ''RUNE''] (js ''runeTicker''))
   \<and> \<not> truthy ([js ''action'' \<mapsto> js ''etch_rune'', js ''receiver'' \<mapsto> js ''bc1qreceiver'',
                 js ''runeTicker'' \<mapsto> js ''RUNE''] (js ''runeDecimals''))
   \<and> \<not> truthy ([js ''action'' \<mapsto> js ''etch_rune'', js ''receiver'' \<mapsto> js ''bc1qreceiver'',
                 js ''runeTicker'' \<mapsto> js ''RUNE''] (js ''runeMintHeight''))
   \<and> truthy (Some (js ''alice.near''))
   \<and> (\<exists>p. GET (Some (js ''alice.near'')) (\<lambda>bs. Inr (take 32 bs)) 0
              [js ''action'' \<mapsto> js ''etch_rune'', js ''receiver'' \<mapsto> js ''bc1qreceiver'',
               js ''runeTicker'' \<mapsto> js ''RUNE'']
            = Response 200 (SuccessBody p)
          \<and> decimals p = Some (Fin 0)
          \<and> mintHeight p = Some (Fin 840000)
          \<and> opReturnHex p = Some (toStringHex (utf8 (js ''RUNE_ETCH:RUNE:0:840000''))))
   \<and> GET2 (Some (js ''alice.near'')) (\<lambda>u. Inr u)
        [js ''action'' \<mapsto> js ''etch_rune'', js ''receiver'' \<mapsto> js ''bc1qreceiver'',
         js ''runeTicker'' \<mapsto> js ''RUNE'']
       = Response 400 (ErrorBody (js ''Rune ticker and mint height are required for etching''))"
  using etch_rune_defaults
      [where searchParams = "[js ''action'' \<mapsto> js ''etch_rune'',
                              js ''receiver'' \<mapsto> js ''bc1qreceiver'',
                              js ''runeTicker'' \<mapsto> js ''RUNE'']"
         and ACCOUNT_ID = "Some (js ''alice.near'')" and URL = "\<lambda>u. Inr u"
         and url = "[js ''action'' \<mapsto> js ''etch_rune'', js ''receiver'' \<mapsto> js ''bc1qreceiver'',
                     js ''runeTicker'' \<mapsto> js ''RUNE'']"
         and digest = "take 32" and now = 0]
  by (simp add: js_def)

subsection \<open>Unexpected errors\<close>

lemma GET_try_throws:
  "GET_try ACCOUNT_ID sha now searchParams = Inl e \<Longrightarrow>
   e = Error (js ''Failed to derive Bitcoin address from NEAR account'')"
  by (auto simp: GET_try_def Let_def deriveAddressFromNearAccount_def
        split: if_splits sum.splits)

lemma GET_try_returns:
  "GET_try ACCOUNT_ID sha now searchParams = Inr r \<Longrightarrow> status r \<in> {200, 400}"
  by (auto simp: GET_try_def Let_def split: if_splits sum.splits)

lemma GET2_try_returns:
  "GET2_try ACCOUNT_ID URL url = Inr r \<Longrightarrow> status r \<in> {200, 400}"
  by (auto simp: GET2_try_def Let_def split: if_splits sum.splits)

text \<open>
  C8: when the \<open>try\<close> block of a handler throws (in \<open>route.ts\<close> the hash function of
  the address derivation can, in the other handler the URL parser), the response has
  status 500 and a fixed message in its error field: the service's own message for a
  failed derivation in \<open>route.ts\<close>, the handler's in the other. No exception leaves a
  handler: each is a total function into responses, of status 200, 400 or 500.
\<close>

theorem unexpected_error_500:
  "(GET_try ACCOUNT_ID sha now searchParams = Inl e \<longrightarrow>
      GET ACCOUNT_ID sha now searchParams
        = Response 500 (ErrorBody (js ''Failed to derive Bitcoin address from NEAR account'')))
   \<and> (GET2_try ACCOUNT_ID URL url = Inl e' \<longrightarrow>
      GET2 ACCOUNT_ID URL url
        = Response 500 (ErrorBody (js ''Failed to generate Bitcoin transaction payload'')))
   \<and> status (GET ACCOUNT_ID sha now searchParams) \<in> {200, 400, 500}
   \<and> status (GET2 ACCOUNT_ID URL url) \<in> {200, 400, 500}"
proof -
  have "status (GET ACCOUNT_ID sha now searchParams) \<in> {200, 400, 500}"
    using GET_try_returns [of ACCOUNT_ID sha now searchParams]
    by (cases "GET_try ACCOUNT_ID sha now searchParams") (auto simp: GET_def)
  moreover have "status (GET2 ACCOUNT_ID URL url) \<in> {200, 400, 500}"
    using GET2_try_returns [of ACCOUNT_ID URL url]
    by (cases "GET2_try ACCOUNT_ID URL url") (auto simp: GET2_def)
  moreover
  have "GET ACCOUNT_ID sha now searchParams
        = Response 500 (ErrorBody (js ''Failed to derive Bitcoin address from NEAR account''))"
    if t: "GET_try ACCOUNT_ID sha now searchParams = Inl e"
  proof -
    have "e = Error (js ''Failed to derive Bitcoin address from NEAR account'')"
      using t by (rule GET_try_throws)
    with t show ?thesis
      by (simp add: GET_def literal_nonempty)
  qed
  moreover have "GET2 ACCOUNT_ID URL url
        = Response 500 (ErrorBody (js ''Failed to generate Bitcoin transaction payload''))"
    if "GET2_try ACCOUNT_ID URL url = Inl e'"
    using that by (simp add: GET2_def)
  ultimately show ?thesis
    by blast
qed

theorem unexpected_error_500_witness:
  "GET_try (Some (js ''alice.near'')) (\<lambda>bs. Inl (Error (js ''digest failed''))) 0
       [js ''action'' \<mapsto> js ''transfer'', js ''receiver'' \<mapsto> js ''bc1qreceiver'',
        js ''amount'' \<mapsto> js ''1000'']
     = Inl (Error (js ''Failed to derive Bitcoin address from NEAR account''))
   \<and> GET (Some (js ''alice.near'')) (\<lambda>bs. Inl (Error (js ''digest failed''))) 0
       [js ''action'' \<mapsto> js ''transfer'', js ''receiver'' \<mapsto> js ''bc1qreceiver'',
        js ''amount'' \<mapsto> js ''1000'']
     = Response 500 (ErrorBody (js ''Failed to derive Bitcoin address from NEAR account''))
   \<and> GET2_try (Some (js ''alice.near'')) (\<lambda>u. Inl (Error (js ''Invalid URL''))) (js ''nowhere'')
     = Inl (Error (js ''Invalid URL''))
   \<and> GET2 (Some (js ''alice.near'')) (\<lambda>u. Inl (Error (js ''Invalid URL''))) (js ''nowhere'')
     = Response 500 (ErrorBody (js ''Failed to generate Bitcoin transaction payload''))
   \<and> status (GET (Some (js ''alice.near'')) (\<lambda>bs. Inl (Error (js ''digest failed''))) 0
       [js ''action'' \<mapsto> js ''transfer'', js ''receiver'' \<mapsto> js ''bc1qreceiver'',
        js ''amount'' \<mapsto> js ''1000'']) \<in> {200, 400, 500}
   \<and> status (GET2 (Some (js ''alice.near'')) (\<lambda>u. Inl (Error (js ''Invalid URL'')))
       (js ''nowhere'')) \<in> {200, 400, 500}"
proof -
  have t1: "GET_try (Some (js ''alice.near'')) (\<lambda>bs. Inl (Error (js ''digest failed''))) 0
       [js ''action'' \<mapsto> js ''transfer'', js ''receiver'' \<mapsto> js ''bc1qreceiver'',
        js ''amount'' \<mapsto> js ''1000'']
     = Inl (Error (js ''Failed to derive Bitcoin address from NEAR account''))"
    by (simp add: GET_try_def Let_def deriveAddressFromNearAccount_def js_def)
  have t2: "GET2_try (Some (js ''alice.near'')) (\<lambda>u. Inl (Error (js ''Invalid URL'')))
       (js ''nowhere'') = Inl (Error (js ''Invalid URL''))"
    by (simp add: GET2_try_def)
  from t1 t2 unexpected_error_500
      [where ACCOUNT_ID = "Some (js ''alice.near'')"
         and sha = "\<lambda>bs. Inl (Error (js ''digest failed''))" and now = 0
         and searchParams = "[js ''action'' \<mapsto> js ''transfer'',
                              js ''receiver'' \<mapsto> js ''bc1qreceiver'',
                              js ''amount'' \<mapsto> js ''1000'']"
         and e = "Error (js ''Failed to derive Bitcoin address from NEAR account'')"
         and URL = "\<lambda>u. Inl (Error (js ''Invalid URL''))" and url = "js ''nowhere''"
         and e' = "Error (js ''Invalid URL'')"]
  show ?thesis
    by simp
qed

subsection \<open>hashString and the mock address\<close>

text \<open>
  C9: for every input string, the empty one included, \<open>hashString\<close> returns (the model is
  a total function, its padding loop proved terminating) a string of exactly 64
  characters, each a lowercase hexadecimal digit; the mock address of the hash-based
  service is the prefix \<open>tb1q\<close> followed by 38 such digits, 42 characters in all.
\<close>

theorem hashString_64_lower_hex:
  "length (hashString input) = 64
   \<and> list_all is_hex_lower (hashString input)
   \<and> address (deriveAddressFromNearAccount_mock accountId derivationPath)
       = js ''tb1q'' @ take 38 (hashString (accountId @ derivationPath))
   \<and> length (address (deriveAddressFromNearAccount_mock accountId derivationPath)) = 42
   \<and> list_all is_hex_lower (take 38 (hashString (accountId @ derivationPath)))"
proof -
  have tk: "list_all is_hex_lower (take 38 (hashString (accountId @ derivationPath)))"
    using hashString_shape [of "accountId @ derivationPath"]
    by (simp add: list_all_iff) (meson in_set_takeD)
  have "length (js ''tb1q'' @ take 38 (hashString (accountId @ derivationPath))) = 42"
    using hashString_shape [of "accountId @ derivationPath"] by (simp add: js_def)
  with tk hashString_shape [of input] show ?thesis
    by (simp add: deriveAddressFromNearAccount_mock_def Let_def)
qed

subsection \<open>Address derivation is a function of its arguments\<close>

text \<open>
  C4: two calls of \<open>deriveAddressFromNearAccount\<close> with the same pair of account id and
  derivation path return the same address and the same public key. Neither version of
  the function reads the clock or a random source (the functions that do take \<open>now\<close>),
  so the result depends on the two arguments alone; the SHA-256 version depends on them
  through the library's hash function.
\<close>

theorem deriveAddressFromNearAccount_deterministic:
  assumes "(accountId, derivationPath) = (accountId', derivationPath')"
  shows "address (deriveAddressFromNearAccount_mock accountId derivationPath)
           = address (deriveAddressFromNearAccount_mock accountId' derivationPath')
       \<and> publicKey (deriveAddressFromNearAccount_mock accountId derivationPath)
           = publicKey (deriveAddressFromNearAccount_mock accountId' derivationPath')
       \<and> deriveAddressFromNearAccount sha256 accountId derivationPath
           = deriveAddressFromNearAccount sha256 accountId' derivationPath'"
  using assms by simp

theorem deriveAddressFromNearAccount_deterministic_witness:
  "(js ''alice.near'', js ''bitcoin-1'') = (js ''alice.near'', js ''bitcoin-1'')
   \<and> address (deriveAddressFromNearAccount_mock (js ''alice.near'') (js ''bitcoin-1''))
       = address (deriveAddressFromNearAccount_mock (js ''alice.near'') (js ''bitcoin-1''))
   \<and> publicKey (deriveAddressFromNearAccount_mock (js ''alice.near'') (js ''bitcoin-1''))
       = publicKey (deriveAddressFromNearAccount_mock (js ''alice.near'') (js ''bitcoin-1''))
   \<and> deriveAddressFromNearAccount (\<lambda>bs. Inr (take 32 bs)) (js ''alice.near'') (js ''bitcoin-1'')
       = deriveAddressFromNearAccount (\<lambda>bs. Inr (take 32 bs)) (js ''alice.near'') (js ''bitcoin-1'')"
  using deriveAddressFromNearAccount_deterministic
    [of "js ''alice.near''" "js ''bitcoin-1''" "js ''alice.near''" "js ''bitcoin-1''"
        "\<lambda>bs. Inr (take 32 bs)"]
  by simp

subsection \<open>The outputs of createBitcoinTransactionPayload\<close>

lemma fl_100000000000001000: "fl 100000000000001000 = Fin 100000000000000992"
  by code_simp

lemma fl_992: "fl 992 = Fin 992"
  using fl_int [of 992] by simp

lemma fl_minus_8: "fl (- 8) = Fin (- 8)"
  using fl_int [of "- 8"] by simp

text \<open>
  C10 as stated fails: for the amount \<open>10\<^sup>1\<^sup>7\<close> and no \<open>utxo\<close>, the default UTXO value
  \<open>10\<^sup>1\<^sup>7 + 1000\<close> rounds to \<open>10\<^sup>1\<^sup>7 + 992\<close> and the change output is \<open>-8\<close>, not 0.
\<close>

theorem change_not_zero:
  "out_value (outputs (fst (createBitcoinTransactionPayload (js ''from'') (js ''key'') (js ''to'')
      (Fin 100000000000000000) (js ''bitcoin-1'') None None)) ! 1) = Fin (- 8)
   \<and> Fin (- 8) \<noteq> Fin 0"
  by (simp add: createBitcoinTransactionPayload_def Let_def js_sub_def
        fl_100000000000001000 fl_992 fl_minus_8)

lemma outputs_given:
  "map out_value (outputs (fst (createBitcoinTransactionPayload fromAddress fromPublicKey
       toAddress amount derivationPath opReturn (Some u))))
   = [amount, js_sub (js_sub (utxo_value u) amount) (Fin 1000)]
     @ (if truthy opReturn then [Fin 0] else [])"
  by (cases opReturn) (simp_all add: createBitcoinTransactionPayload_def Let_def)

lemma outputs_default:
  "map out_value (outputs (fst (createBitcoinTransactionPayload fromAddress fromPublicKey
       toAddress amount derivationPath opReturn None)))
   = [amount, js_sub (js_sub (js_add amount (Fin 1000)) amount) (Fin 1000)]
     @ (if truthy opReturn then [Fin 0] else [])"
  by (cases opReturn) (simp_all add: createBitcoinTransactionPayload_def Let_def)

lemma Fin_1000: "Fin 1000 = num 1000"
  by (simp add: num_def)

text \<open>
  C10, amended: for every call in which \<open>amountSatoshis\<close> and \<open>utxo.value\<close> are
  non-negative integers below \<open>2\<^sup>5\<^sup>2\<close>, the values of the outputs sum to
  \<open>utxo.value - 1000\<close>; for all arguments, the outputs after the first two are the
  OP_RETURN output alone, of value 0, when \<open>opReturnHex\<close> is a non-empty string, and none
  otherwise; and when \<open>utxo\<close> is omitted and \<open>amountSatoshis\<close> is such an integer, the
  change output has value exactly 0.
\<close>

theorem createBitcoinTransactionPayload_outputs:
  assumes "0 \<le> a" and "a < 2 ^ 52" and "0 \<le> v" and "v < 2 ^ 52"
  shows "sum_exact (map out_value (outputs (fst (createBitcoinTransactionPayload fromAddress
            fromPublicKey toAddress (num a) derivationPath opReturn
            (Some \<lparr>txid = t, vout = n, utxo_value = num v\<rparr>)))))
           = Some (of_int v - 1000)
       \<and> map out_value (drop 2 (outputs (fst (createBitcoinTransactionPayload fromAddress
            fromPublicKey toAddress amount derivationPath opReturn u))))
           = (if truthy opReturn then [Fin 0] else [])
       \<and> out_value (outputs (fst (createBitcoinTransactionPayload fromAddress
            fromPublicKey toAddress (num a) derivationPath opReturn None)) ! 1) = Fin 0"
proof -
  have "\<bar>v - a\<bar> < 2 ^ 53" and "\<bar>v - a - 1000\<bar> < 2 ^ 53"
    using assms by simp_all
  then have change: "js_sub (js_sub (num v) (num a)) (Fin 1000) = num (v - a - 1000)"
    by (simp add: js_sub_num Fin_1000)
  have "\<bar>a + 1000\<bar> < 2 ^ 53" and "\<bar>a + 1000 - a\<bar> < 2 ^ 53"
    using assms by simp_all
  then have "js_sub (js_sub (js_add (num a) (Fin 1000)) (num a)) (Fin 1000)
             = js_sub (num (a + 1000 - a)) (num 1000)"
    by (simp only: Fin_1000 js_add_num js_sub_num)
  also have "\<dots> = num 0"
    using js_sub_num [of 1000 1000] by simp
  finally have zero: "js_sub (js_sub (js_add (num a) (Fin 1000)) (num a)) (Fin 1000) = Fin 0"
    by (simp add: num_def)
  have "sum_exact (map out_value (outputs (fst (createBitcoinTransactionPayload fromAddress
            fromPublicKey toAddress (num a) derivationPath opReturn
            (Some \<lparr>txid = t, vout = n, utxo_value = num v\<rparr>)))))
          = Some (of_int v - 1000)"
    by (simp add: outputs_given change) (simp add: num_def)
  moreover have "map out_value (drop 2 (outputs (fst (createBitcoinTransactionPayload fromAddress
            fromPublicKey toAddress amount derivationPath opReturn u))))
           = (if truthy opReturn then [Fin 0] else [])"
    by (cases u; cases opReturn) (simp_all add: createBitcoinTransactionPayload_def Let_def)
  moreover have "out_value (outputs (fst (createBitcoinTransactionPayload fromAddress
            fromPublicKey toAddress (num a) derivationPath opReturn None)) ! 1) = Fin 0"
  proof -
    have "map out_value (outputs (fst (createBitcoinTransactionPayload fromAddress
            fromPublicKey toAddress (num a) derivationPath opReturn None))) ! 1 = Fin 0"
      by (simp add: outputs_default zero)
    moreover have "1 < length (outputs (fst (createBitcoinTransactionPayload fromAddress
            fromPublicKey toAddress (num a) derivationPath opReturn None)))"
      using arg_cong [OF outputs_default [of fromAddress fromPublicKey toAddress "num a"
            derivationPath opReturn], of length]
      by (simp split: if_splits)
    ultimately show ?thesis
      by simp
  qed
  ultimately show ?thesis
    by blast
qed

theorem createBitcoinTransactionPayload_outputs_witness:
  "(0::int) \<le> 5000 \<and> (5000::int) < 2 ^ 52 \<and> (0::int) \<le> 9000 \<and> (9000::int) < 2 ^ 52
   \<and> sum_exact (map out_value (outputs (fst (createBitcoinTransactionPayload (js ''from'')
        (js ''key'') (js ''to'') (num 5000) (js ''bitcoin-1'') (Some (js ''5245''))
        (Some \<lparr>txid = js ''ab'', vout = Fin 0, utxo_value = num 9000\<rparr>)))))
       = Some 8000
   \<and> map out_value (drop 2 (outputs (fst (createBitcoinTransactionPayload (js ''from'')
        (js ''key'') (js ''to'') NaN (js ''bitcoin-1'') (Some (js ''5245'')) None))))
       = [Fin 0]
   \<and> out_value (outputs (fst (createBitcoinTransactionPayload (js ''from'')
        (js ''key'') (js ''to'') (num 5000) (js ''bitcoin-1'') (Some (js ''5245'')) None)) ! 1)
       = Fin 0"
  using createBitcoinTransactionPayload_outputs [of 5000 9000 "js ''from''" "js ''key''"
      "js ''to''" "js ''bitcoin-1''" "Some (js ''5245'')" "js ''ab''" "Fin 0" NaN None]
  by (simp add: js_def)

end
